theory Spec2Isabelle
  imports Main "HOL-Library.Sublist" "HOL-Library.Word"
begin

section \<open>JavaScript values\<close>

text \<open>
  The server is \<^verbatim>\<open>src/backend/server.js\<close>. A JavaScript string is modelled as a
  \<^typ>\<open>string\<close>, one character per UTF-16 code unit, so the model covers the strings whose
  code units lie below U+0100; \<^const>\<open>length\<close> is then \<^verbatim>\<open>.length\<close>. Only the code
  that enters the cache key is also given with all its code units, as a list of 16-bit words.
  A parsed JSON value (a request body field, a cache entry, a response body) is a
  \<^verbatim>\<open>json\<close>; an object is the list of its own properties in enumeration order.
  A field that is \<^verbatim>\<open>undefined\<close> is \<^const>\<open>None\<close>.

  A number has one of three forms. \<^verbatim>\<open>JNum n\<close> is the integer-valued number \<open>n\<close>,
  which JavaScript writes with its decimal digits as long as its magnitude is below
  \<open>10\<^sup>2\<^sup>1\<close>; the two zeros, which are equal and are written alike, are the one value
  \<^verbatim>\<open>JNum 0\<close>. \<^verbatim>\<open>JDec t\<close> is any other finite number, given by the numeral
  \<open>t\<close> that \<^verbatim>\<open>Number.prototype.toString\<close> writes for it, such as \<^verbatim>\<open>1.6\<close> or
  \<^verbatim>\<open>1e+21\<close>; that numeral determines the number, and no arithmetic is done on it.
  \<^verbatim>\<open>JInf neg\<close> is \<^verbatim>\<open>Infinity\<close> or \<^verbatim>\<open>-Infinity\<close>, which
  \<^verbatim>\<open>JSON.parse\<close> gives for a numeral beyond the range of the doubles, such as
  \<^verbatim>\<open>1e999\<close>. \<^verbatim>\<open>NaN\<close> is no value of a parsed JSON text.
\<close>

datatype json =
    JNull
  | JBool bool
  | JNum int
  | JDec string
  | JInf bool
  | JStr string
  | JArr "json list"
  | JObj "(string \<times> json) list"

text \<open>A thrown value, with its message.\<close>

datatype js_error = TypeError string | Error string

text \<open>Line breaks, tabs and the backslash, which a string literal cannot hold.\<close>

definition LF :: char where "LF = CHR 0x0A"
definition TAB :: char where "TAB = CHR 0x09"
definition BSL :: char where "BSL = CHR 0x5C"

fun join :: "string \<Rightarrow> string list \<Rightarrow> string" where
  "join sep [] = []"
| "join sep [x] = x"
| "join sep (x # y # ys) = x @ sep @ join sep (y # ys)"

subsection \<open>Number to string\<close>

definition digit_char :: "nat \<Rightarrow> char" where
  "digit_char d = char_of (48 + d)"

fun digits :: "nat \<Rightarrow> string" where
  "digits n = (if n < 10 then [digit_char n] else digits (n div 10) @ [digit_char (n mod 10)])"

declare digits.simps [simp del]

definition num_text :: "int \<Rightarrow> string" where
  "num_text i = (if i < 0 then CHR ''-'' # digits (nat (- i)) else digits (nat i))"

subsection \<open>Truthiness and \<^verbatim>\<open>String(v)\<close>\<close>

fun truthy :: "json \<Rightarrow> bool" where
  "truthy JNull = False"
| "truthy (JBool b) = b"
| "truthy (JNum n) = (n \<noteq> 0)"
| "truthy (JDec t) = True"
| "truthy (JInf neg) = True"
| "truthy (JStr s) = (s \<noteq> [])"
| "truthy (JArr xs) = True"
| "truthy (JObj kvs) = True"

text \<open>An argument that may be \<^verbatim>\<open>undefined\<close>.\<close>

definition falsy :: "json option \<Rightarrow> bool" where
  "falsy v = (case v of None \<Rightarrow> True | Some j \<Rightarrow> \<not> truthy j)"

fun String_of :: "json \<Rightarrow> string" where
  "String_of JNull = ''null''"
| "String_of (JBool b) = (if b then ''true'' else ''false'')"
| "String_of (JNum n) = num_text n"
| "String_of (JDec t) = t"
| "String_of (JInf neg) = (if neg then ''-Infinity'' else ''Infinity'')"
| "String_of (JStr s) = s"
| "String_of (JArr xs) = join '','' (map (\<lambda>x. if x = JNull then [] else String_of x) xs)"
| "String_of (JObj kvs) = ''[object Object]''"

subsection \<open>\<^verbatim>\<open>JSON.stringify\<close>\<close>

text \<open>A number that is not finite is written as \<^verbatim>\<open>null\<close>.\<close>

definition hex_digit :: "nat \<Rightarrow> char" where
  "hex_digit d = (if d < 10 then char_of (48 + d) else char_of (87 + d))"

definition quote_char :: "char \<Rightarrow> string" where
  "quote_char c =
     (if c = CHR 0x22 then [BSL, CHR 0x22]
      else if c = BSL then [BSL, BSL]
      else if c = CHR 0x08 then [BSL, CHR ''b'']
      else if c = TAB then [BSL, CHR ''t'']
      else if c = LF then [BSL, CHR ''n'']
      else if c = CHR 0x0C then [BSL, CHR ''f'']
      else if c = CHR 0x0D then [BSL, CHR ''r'']
      else if (of_char c :: nat) < 32
        then [BSL, CHR ''u'', CHR ''0'', CHR ''0'',
              hex_digit (of_char c div 16), hex_digit (of_char c mod 16)]
      else [c])"

definition quote :: "string \<Rightarrow> string" where
  "quote s = CHR 0x22 # concat (map quote_char s) @ [CHR 0x22]"

fun JSON_stringify :: "json \<Rightarrow> string" where
  "JSON_stringify JNull = ''null''"
| "JSON_stringify (JBool b) = (if b then ''true'' else ''false'')"
| "JSON_stringify (JNum n) = num_text n"
| "JSON_stringify (JDec t) = t"
| "JSON_stringify (JInf neg) = ''null''"
| "JSON_stringify (JStr s) = quote s"
| "JSON_stringify (JArr xs) = ''['' @ join '','' (map JSON_stringify xs) @ '']''"
| "JSON_stringify (JObj kvs) =
     ''{'' @ join '','' (map (\<lambda>kv. quote (fst kv) @ '':'' @ JSON_stringify (snd kv)) kvs) @ ''}''"

subsection \<open>Objects\<close>

text \<open>Reading an own property, and writing one: an existing key keeps its place.\<close>

definition own_prop :: "(string \<times> json) list \<Rightarrow> string \<Rightarrow> json option" where
  "own_prop kvs k = map_of kvs k"

fun put :: "string \<Rightarrow> json \<Rightarrow> (string \<times> json) list \<Rightarrow> (string \<times> json) list" where
  "put k v [] = [(k, v)]"
| "put k v (p # ps) = (if fst p = k then (k, v) # ps else p # put k v ps)"

section \<open>escapeHTML\<close>

text \<open>
  \<^verbatim>\<open>str.replace(/c/g, r)\<close> for a one-character pattern and a replacement with no
  \<^verbatim>\<open>$\<close> in it.
\<close>

definition replaceAll :: "char \<Rightarrow> string \<Rightarrow> string \<Rightarrow> string" where
  "replaceAll c r s = concat (map (\<lambda>x. if x = c then r else [x]) s)"

definition escape_string :: "string \<Rightarrow> string" where
  "escape_string str =
     (replaceAll CHR '' '' ''&nbsp;''
       (replaceAll TAB ''&nbsp;&nbsp;&nbsp;&nbsp;''
         (replaceAll LF ''<br>''
           (replaceAll CHR 0x27 ''&#039;''
             (replaceAll CHR 0x22 ''&quot;''
               (replaceAll CHR ''>'' ''&gt;''
                 (replaceAll CHR ''<'' ''&lt;''
                   (replaceAll CHR ''&'' ''&amp;'' str))))))))"

text \<open>
  \<^verbatim>\<open>if (!str) return ''\<close>; a truthy argument that is not a string has no
  \<^verbatim>\<open>replace\<close> method, and the call throws a TypeError (the message texts are V8's).
\<close>

definition escapeHTML :: "json option \<Rightarrow> js_error + string" where
  "escapeHTML str =
     (if falsy str then Inr []
      else case str of
             Some (JStr s) \<Rightarrow> Inr (escape_string s)
           | _ \<Rightarrow> Inl (TypeError ''str.replace is not a function''))"

text \<open>What the eight replacements together write for one character of the input.\<close>

definition escape_char :: "char \<Rightarrow> string" where
  "escape_char c =
     (if c = CHR ''&'' then ''&amp;''
      else if c = CHR ''<'' then ''&lt;''
      else if c = CHR ''>'' then ''&gt;''
      else if c = CHR 0x22 then ''&quot;''
      else if c = CHR 0x27 then ''&#039;''
      else if c = LF then ''<br>''
      else if c = TAB then ''&nbsp;&nbsp;&nbsp;&nbsp;''
      else if c = CHR '' '' then ''&nbsp;''
      else [c])"

section \<open>generateHTMLTemplate\<close>

text \<open>
  Two library computations are parameters of the model: \<^verbatim>\<open>toUpperCase\<close>, which follows
  the Unicode case mapping, and the text of the floating-point product
  \<^verbatim>\<open>parseInt(fontSize) * parseFloat(lineHeight)\<close>, given the two arguments as strings.
  \<^verbatim>\<open>JSON_parse\<close> is \<^verbatim>\<open>JSON.parse\<close>, used by the cache.
\<close>

record builtins =
  toUpperCase :: "string \<Rightarrow> string"
  num_product :: "string \<Rightarrow> string \<Rightarrow> string"
  JSON_parse :: "string \<Rightarrow> js_error + json"

text \<open>The \<^verbatim>\<open>themes\<close> table, an object of objects, as the source writes it.\<close>

definition dark :: "(string \<times> string) list" where
  "dark =
     [(''background'', ''#262424''),
      (''text'', ''#f8f8f2''),
      (''comment'', ''#6272a4''),
      (''keyword'', ''#ff79c6''),
      (''string'', ''#f1fa8c''),
      (''number'', ''#bd93f9''),
      (''function'', ''#50fa7b''),
      (''class'', ''#8be9fd''),
      (''variable'', ''#ffb86c''),
      (''operator'', ''#ff79c6'')]"

definition light :: "(string \<times> string) list" where
  "light =
     [(''background'', ''#ffffff''),
      (''text'', ''#383a42''),
      (''comment'', ''#a0a1a7''),
      (''keyword'', ''#a626a4''),
      (''string'', ''#50a14f''),
      (''number'', ''#986801''),
      (''function'', ''#4078f2''),
      (''class'', ''#c18401''),
      (''variable'', ''#e45649''),
      (''operator'', ''#a626a4'')]"

definition solarized :: "(string \<times> string) list" where
  "solarized =
     [(''background'', ''#002b36''),
      (''text'', ''#839496''),
      (''comment'', ''#586e75''),
      (''keyword'', ''#859900''),
      (''string'', ''#2aa198''),
      (''number'', ''#d33682''),
      (''function'', ''#b58900''),
      (''class'', ''#268bd2''),
      (''variable'', ''#cb4b16''),
      (''operator'', ''#859900'')]"

definition themes :: "(string \<times> (string \<times> string) list) list" where
  "themes = [(''dark'', dark), (''light'', light), (''solarized'', solarized)]"

text \<open>
  \<^verbatim>\<open>themes\<close> is an object literal, so \<^verbatim>\<open>themes[theme]\<close> also finds what every
  object inherits from \<^verbatim>\<open>Object.prototype\<close>: a function, or for
  \<^verbatim>\<open>__proto__\<close> the prototype itself. Each of them is truthy and has none of the
  colour roles; it is the object with no role here.
\<close>

definition Object_prototype :: "string list" where
  "Object_prototype =
     [''constructor'', ''hasOwnProperty'', ''isPrototypeOf'', ''propertyIsEnumerable'',
      ''toLocaleString'', ''toString'', ''valueOf'', ''__proto__'',
      ''__defineGetter__'', ''__defineSetter__'', ''__lookupGetter__'', ''__lookupSetter__'']"

definition themes_at :: "json \<Rightarrow> (string \<times> string) list option" where
  "themes_at theme =
     (case map_of themes (String_of theme) of
        Some palette \<Rightarrow> Some palette
      | None \<Rightarrow> if String_of theme \<in> set Object_prototype then Some [] else None)"

text \<open>\<^verbatim>\<open>themes[theme] || themes.dark\<close>\<close>

definition themeColors_for :: "json \<Rightarrow> (string \<times> string) list" where
  "themeColors_for theme = (case themes_at theme of Some palette \<Rightarrow> palette | None \<Rightarrow> dark)"

text \<open>\<^verbatim>\<open>${themeColors.role}\<close>: a missing property prints as \<^verbatim>\<open>undefined\<close>.\<close>

definition color :: "(string \<times> string) list \<Rightarrow> string \<Rightarrow> string" where
  "color themeColors role =
     (case map_of themeColors role of Some c \<Rightarrow> c | None \<Rightarrow> ''undefined'')"

text \<open>
  The properties that destructuring reads from \<^verbatim>\<open>options\<close>: an absent argument is
  \<^verbatim>\<open>{}\<close>, and a string, number, boolean or array has none of the ten names.
  \<^verbatim>\<open>field\<close> is one destructured name with its default.
\<close>

definition properties :: "json option \<Rightarrow> (string \<times> json) list" where
  "properties options = (case options of Some (JObj kvs) \<Rightarrow> kvs | _ \<Rightarrow> [])"

definition field :: "(string \<times> json) list \<Rightarrow> string \<Rightarrow> json \<Rightarrow> json" where
  "field opts k d = (case own_prop opts k of None \<Rightarrow> d | Some v \<Rightarrow> v)"

text \<open>
  The template literal, piece by piece. A piece of fixed text is the list of its lines;
  the bullet of the window title (U+2022, outside the 8-bit characters) is written as its
  UTF-8 bytes. The backtick of the string pattern in the highlighting script is not escaped
  in the source (line 392); the template is read as running to its closing backtick at line 443.
\<close>

fun text_lines :: "string list \<Rightarrow> string" where
  "text_lines [] = []"
| "text_lines [l] = l"
| "text_lines (l # m # ls) = l @ LF # text_lines (m # ls)"

definition BULLET :: string where
  "BULLET = [CHR 0xE2, CHR 0x80, CHR 0xA2]"

definition window_header_css :: "json \<Rightarrow> (string \<times> string) list \<Rightarrow> string" where
  \<open>window_header_css theme themeColors =
     concat
      [text_lines
        [[],
         ''        .window-header {'',
         ''            background: ''],
       (if theme = JStr ''dark'' then ''rgba(0, 0, 0, 0.4)'' else ''rgba(0, 0, 0, 0.1)''),
       text_lines
        ['';'',
         ''            padding: 16px 24px;'',
         ''            display: flex;'',
         ''            align-items: center;'',
         ''            justify-content: space-between;'',
         ''            border-bottom: 1px solid ''],
       (if theme = JStr ''dark'' then ''rgba(255, 255, 255, 0.1)'' else ''rgba(0, 0, 0, 0.1)''),
       text_lines
        ['';'',
         ''        }'',
         ''        '',
         ''        .window-controls {'',
         ''            display: flex;'',
         ''            gap: 10px;'',
         ''        }'',
         ''        '',
         ''        .window-dot {'',
         ''            width: 14px;'',
         ''            height: 14px;'',
         ''            border-radius: 50%;'',
         ''            cursor: pointer;'',
         ''            transition: all 0.2s ease;'',
         ''        }'',
         ''        '',
         ''        .window-dot:hover {'',
         ''            transform: scale(1.1);'',
         ''        }'',
         ''        '',
         ''        .dot-close { background: #ff5f56; }'',
         ''        .dot-minimize { background: #ffbd2e; }'',
         ''        .dot-maximize { background: #27ca3f; }'',
         ''        '',
         ''        .window-title {'',
         ''            font-size: 0.9em;'',
         ''            color: ''],
       color themeColors ''comment'',
       text_lines
        ['';'',
         ''            font-weight: 500;'',
         ''        }'',
         ''        '']]\<close>

definition line_number_css :: "json \<Rightarrow> (string \<times> string) list \<Rightarrow> string" where
  \<open>line_number_css theme themeColors =
     concat
      [text_lines
        [[],
         ''        .line-number {'',
         ''            color: ''],
       color themeColors ''comment'',
       text_lines
        ['';'',
         ''            user-select: none;'',
         ''            text-align: right;'',
         ''            min-width: 40px;'',
         ''            padding-right: 16px;'',
         ''            border-right: 1px solid ''],
       (if theme = JStr ''dark'' then ''rgba(255, 255, 255, 0.1)'' else ''rgba(0, 0, 0, 0.1)''),
       text_lines
        ['';'',
         ''            margin-right: 16px;'',
         ''        }'',
         ''        '']]\<close>

definition window_header_html :: "string \<Rightarrow> string" where
  \<open>window_header_html LANGUAGE =
     concat
      [text_lines
        [[],
         ''        <div class="window-header">'',
         ''            <div class="window-controls">'',
         ''                <div class="window-dot dot-close" title="Close"></div>'',
         ''                <div class="window-dot dot-minimize" title="Minimize"></div>'',
         ''                <div class="window-dot dot-maximize" title="Maximize"></div>'',
         ''            </div>'',
         ''            <div class="window-title">''],
       LANGUAGE,
       text_lines
        ['' '' @ BULLET @ '' Carbon Generator</div>'',
         ''            <div style="width: 60px;"></div>'',
         ''        </div>'',
         ''        '']]\<close>

text \<open>The document up to the code block of line 373.\<close>

definition document_head :: "builtins \<Rightarrow> (string \<times> json) list \<Rightarrow> string \<Rightarrow> string \<Rightarrow> string" where
  \<open>document_head B opts fontFamily LANGUAGE =
    (let theme = field opts ''theme'' (JStr ''dark'');
         backgroundColor = field opts ''backgroundColor'' (JStr ''#262424'');
         fontSize = field opts ''fontSize'' (JStr ''14px'');
         showLineNumbers = field opts ''showLineNumbers'' (JBool True);
         showWindowControls = field opts ''showWindowControls'' (JBool True);
         padding = field opts ''padding'' (JStr ''40px'');
         lineHeight = field opts ''lineHeight'' (JStr ''1.6'');
         tabSize = field opts ''tabSize'' (JNum 2);
         themeColors = themeColors_for theme;
         fontFamilyCSS =
           (if CHR '' '' \<in> set fontFamily then [CHR 0x27] @ fontFamily @ [CHR 0x27] else fontFamily)
     in concat
       [text_lines
        [[],
         ''<!DOCTYPE html>'',
         ''<html lang="en">'',
         ''<head>'',
         ''    <meta charset="UTF-8">'',
         ''    <meta name="viewport" content="width=device-width, initial-scale=1.0">'',
         ''    <title>Carbon Code</title>'',
         ''    <link href="https://fonts.googleapis.com/css2?family=''],
        replaceAll CHR '' '' ''+'' fontFamily,
        text_lines
        [''&display=swap" rel="stylesheet">'',
         ''    <style>'',
         ''        * {'',
         ''            margin: 0;'',
         ''            padding: 0;'',
         ''            box-sizing: border-box;'',
         ''        }'',
         ''        '',
         ''        body {'',
         ''            background: ''],
        String_of backgroundColor,
        text_lines
        ['';'',
         ''            font-family: ''],
        fontFamilyCSS,
        text_lines
        ['', monospace;'',
         ''            font-size: ''],
        String_of fontSize,
        text_lines
        ['';'',
         ''            line-height: ''],
        String_of lineHeight,
        text_lines
        ['';'',
         ''            color: ''],
        color themeColors ''text'',
        text_lines
        ['';'',
         ''            padding: ''],
        String_of padding,
        text_lines
        ['';'',
         ''            min-height: 100vh;'',
         ''            display: flex;'',
         ''            align-items: center;'',
         ''            justify-content: center;'',
         ''        }'',
         ''        '',
         ''        .carbon-container {'',
         ''            width: 100%;'',
         ''            max-width: 900px;'',
         ''            background: ''],
        (if theme = JStr ''dark'' then ''rgba(0, 0, 0, 0.3)'' else ''rgba(0, 0, 0, 0.05)''),
        text_lines
        ['';'',
         ''            border-radius: 12px;'',
         ''            overflow: hidden;'',
         ''            box-shadow: 0 20px 60px rgba(0, 0, 0, 0.3);'',
         ''            border: 1px solid ''],
        (if theme = JStr ''dark'' then ''rgba(255, 255, 255, 0.1)'' else ''rgba(0, 0, 0, 0.1)''),
        text_lines
        ['';'',
         ''        }'',
         ''        '',
         ''        ''],
        (if truthy showWindowControls then window_header_css theme themeColors else []),
        text_lines
        [[],
         ''        '',
         ''        .code-wrapper {'',
         ''            padding: 32px;'',
         ''            overflow: auto;'',
         ''        }'',
         ''        '',
         ''        pre {'',
         ''            margin: 0;'',
         ''            white-space: pre-wrap;'',
         ''            word-wrap: break-word;'',
         ''            tab-size: ''],
        String_of tabSize,
        text_lines
        ['';'',
         ''        }'',
         ''        '',
         ''        code {'',
         ''            font-family: inherit;'',
         ''            display: block;'',
         ''        }'',
         ''        '',
         ''        .line {'',
         ''            display: flex;'',
         ''            min-height: ''],
        num_product B (String_of fontSize) (String_of lineHeight),
        text_lines
        [''px;'',
         ''        }'',
         ''        '',
         ''        ''],
        (if truthy showLineNumbers then line_number_css theme themeColors else []),
        text_lines
        [[],
         ''        '',
         ''        .token.comment { color: ''],
        color themeColors ''comment'',
        text_lines
        [''; font-style: italic; }'',
         ''        .token.keyword { color: ''],
        color themeColors ''keyword'',
        text_lines
        [''; font-weight: 600; }'',
         ''        .token.string { color: ''],
        color themeColors ''string'',
        text_lines
        [''; }'',
         ''        .token.number { color: ''],
        color themeColors ''number'',
        text_lines
        [''; }'',
         ''        .token.function { color: ''],
        color themeColors ''function'',
        text_lines
        [''; }'',
         ''        .token.class { color: ''],
        color themeColors ''class'',
        text_lines
        [''; }'',
         ''        .token.variable { color: ''],
        color themeColors ''variable'',
        text_lines
        [''; }'',
         ''        .token.operator { color: ''],
        color themeColors ''operator'',
        text_lines
        [''; }'',
         ''        .token.punctuation { color: ''],
        color themeColors ''text'',
        text_lines
        [''; opacity: 0.8; }'',
         ''        '',
         ''        .grid-bg {'',
         ''            position: absolute;'',
         ''            top: 0;'',
         ''            left: 0;'',
         ''            right: 0;'',
         ''            bottom: 0;'',
         ''            background-image: '',
         ''                linear-gradient(rgba(255, 255, 255, 0.03) 1px, transparent 1px),'',
         ''                linear-gradient(90deg, rgba(255, 255, 255, 0.03) 1px, transparent 1px);'',
         ''            background-size: 30px 30px;'',
         ''            pointer-events: none;'',
         ''            z-index: 0;'',
         ''        }'',
         ''        '',
         ''        .content {'',
         ''            position: relative;'',
         ''            z-index: 1;'',
         ''        }'',
         ''    </style>'',
         ''</head>'',
         ''<body>'',
         ''    <div class="carbon-container">'',
         ''        ''],
        (if truthy showWindowControls then window_header_html LANGUAGE else []),
        text_lines
        [[],
         ''        '',
         ''        <div class="code-wrapper">'',
         ''            <div class="grid-bg"></div>'',
         ''            <div class="content">'',
         ''                '']])\<close>

text \<open>The document after the code block.\<close>

definition document_tail :: "(string \<times> json) list \<Rightarrow> string" where
  \<open>document_tail opts =
    (let language = field opts ''language'' (JStr ''auto'');
         showLineNumbers = field opts ''showLineNumbers'' (JBool True)
     in concat
       [text_lines
        [[],
         ''            </div>'',
         ''        </div>'',
         ''    </div>'',
         ''    '',
         ''    <script>'',
         ''        (function highlightSyntax() {'',
         ''            const codeElement = document.querySelector('code');'',
         ''            if (!codeElement) return;'',
         ''            '',
         ''            let code = codeElement.textContent;'',
         ''            const lines = code.split('' @ [CHR 0x27] @ [BSL] @ ''n');'',
         ''            const language = '' @ [CHR 0x27]],
        String_of language,
        text_lines
        [''';'',
         ''            '',
         ''            // Basic syntax highlighting patterns'',
         ''            const patterns = {'',
         ''                javascript: ['',
         ''                    { regex: /'' @ [BSL] @ ''/'' @ [BSL] @ ''/.*$/gm, className: 'comment' },'',
         ''                    { regex: /'' @ [BSL] @ ''/'' @ [BSL] @ ''*['' @ [BSL] @ ''s'' @ [BSL] @ ''S]*?'' @ [BSL] @ ''*'' @ [BSL] @ ''//g, className: 'comment' },'',
         ''                    { regex: /(["'`])(?:'' @ [BSL] @ [BSL] @ ''.|[^'' @ [BSL] @ [BSL] @ ''])*?'' @ [BSL] @ ''1/g, className: 'string' },'',
         ''                    { regex: /'' @ [BSL] @ ''b('' @ [BSL] @ ''d+'' @ [BSL] @ ''.?'' @ [BSL] @ ''d*|0x['' @ [BSL] @ ''da-fA-F]+)'' @ [BSL] @ ''b/g, className: 'number' },'',
         ''                    { regex: /'' @ [BSL] @ ''b(const|let|var|function|return|if|else|for|while|switch|case|break|continue|class|extends|import|export|default|async|await|try|catch|finally|throw|new|this|super)'' @ [BSL] @ ''b/g, className: 'keyword' },'',
         ''                    { regex: /'' @ [BSL] @ ''b(console|Math|Date|String|Number|Array|Object|Promise|JSON)'' @ [BSL] @ ''b/g, className: 'class' },'',
         ''                    { regex: /(=|'' @ [BSL] @ ''+|'' @ [BSL] @ ''-|'' @ [BSL] @ ''*|'' @ [BSL] @ ''/|%|==|===|!=|!==|>|<|>=|<=|&&|'' @ [BSL] @ ''|'' @ [BSL] @ ''||!|'' @ [BSL] @ ''?:|'' @ [BSL] @ ''.'' @ [BSL] @ ''.'' @ [BSL] @ ''.)'' @ [BSL] @ ''b/g, className: 'operator' },'',
         ''                    { regex: /([{}()'' @ [BSL] @ ''['' @ [BSL] @ ''];:,])/g, className: 'punctuation' }'',
         ''                ],'',
         ''                python: ['',
         ''                    { regex: /#.*$/gm, className: 'comment' },'',
         ''                    { regex: /(["'"])(?:'' @ [BSL] @ [BSL] @ ''.|[^'' @ [BSL] @ [BSL] @ ''])*?'' @ [BSL] @ ''1/g, className: 'string' },'',
         ''                    { regex: /'' @ [BSL] @ ''b('' @ [BSL] @ ''d+'' @ [BSL] @ ''.?'' @ [BSL] @ ''d*)'' @ [BSL] @ ''b/g, className: 'number' },'',
         ''                    { regex: /'' @ [BSL] @ ''b(def|class|return|if|elif|else|for|while|try|except|finally|with|import|from|as|lambda|pass|break|continue|raise|yield|async|await)'' @ [BSL] @ ''b/g, className: 'keyword' },'',
         ''                    { regex: /'' @ [BSL] @ ''b(print|len|range|str|int|float|list|dict|tuple|set|True|False|None)'' @ [BSL] @ ''b/g, className: 'class' }'',
         ''                ],'',
         ''                html: ['',
         ''                    { regex: /&lt;!--['' @ [BSL] @ ''s'' @ [BSL] @ ''S]*?--&gt;/g, className: 'comment' },'',
         ''                    { regex: /&lt;'' @ [BSL] @ ''/?[a-zA-Z][^&lt;&gt;]*&gt;/g, className: 'keyword' },'',
         ''                    { regex: /(["'])(?:'' @ [BSL] @ [BSL] @ ''.|[^'' @ [BSL] @ [BSL] @ ''])*?'' @ [BSL] @ ''1/g, className: 'string' }'',
         ''                ],'',
         ''                css: ['',
         ''                    { regex: /'' @ [BSL] @ ''/'' @ [BSL] @ ''*['' @ [BSL] @ ''s'' @ [BSL] @ ''S]*?'' @ [BSL] @ ''*'' @ [BSL] @ ''//g, className: 'comment' },'',
         ''                    { regex: /(["'])(?:'' @ [BSL] @ [BSL] @ ''.|[^'' @ [BSL] @ [BSL] @ ''])*?'' @ [BSL] @ ''1/g, className: 'string' },'',
         ''                    { regex: /'' @ [BSL] @ ''b('' @ [BSL] @ ''d+)(px|em|rem|%|s|ms)?'' @ [BSL] @ ''b/g, className: 'number' },'',
         ''                    { regex: /'' @ [BSL] @ ''b(@media|@import|@keyframes|@font-face|@page)'' @ [BSL] @ ''b/g, className: 'keyword' }'',
         ''                ]'',
         ''            };'',
         ''            '',
         ''            const langPatterns = patterns[language] || patterns.javascript;'',
         ''            '',
         ''            langPatterns.forEach(({ regex, className }) => {'',
         ''                code = code.replace(regex, '<span class="token ' + className + '">$&</span>');'',
         ''            });'',
         ''            '',
         ''            // Add line numbers'',
         ''            if (''],
        String_of showLineNumbers,
        text_lines
        ['') {'',
         ''                let numberedCode = '' @ [CHR 0x27] @ ''';'',
         ''                lines.forEach((line, i) => {'',
         ''                    const lineNumber = i + 1;'',
         ''                    const lineContent = line || ' ';'',
         ''                    numberedCode += '<div class="line">';'',
         ''                    numberedCode += '<span class="line-number">' + lineNumber + '</span>';'',
         ''                    numberedCode += '<span class="line-content">' + lineContent + '</span>';'',
         ''                    numberedCode += '</div>';'',
         ''                });'',
         ''                code = numberedCode;'',
         ''            }'',
         ''            '',
         ''            codeElement.innerHTML = code;'',
         ''        })();'',
         ''    </script>'',
         ''</body>'',
         ''</html>'']])\<close>

text \<open>
  The builder. Destructuring \<^verbatim>\<open>null\<close> throws; \<^verbatim>\<open>fontFamily.includes\<close> and
  \<^verbatim>\<open>fontFamily.replace\<close> need a string, and so does \<^verbatim>\<open>language.toUpperCase\<close>,
  which is evaluated only when the window controls are shown.
\<close>

definition generateHTMLTemplate :: "builtins \<Rightarrow> json option \<Rightarrow> json option \<Rightarrow> js_error + string" where
  "generateHTMLTemplate B code options =
     (if options = Some JNull
      then Inl (TypeError ''Cannot destructure property 'theme' of 'options' as it is null.'')
      else
        let opts = properties options;
            fontFamily = field opts ''fontFamily'' (JStr ''Fira Code'');
            language = field opts ''language'' (JStr ''auto'');
            showWindowControls = field opts ''showWindowControls'' (JBool True)
        in case fontFamily of
             JStr ff \<Rightarrow>
               (case (if truthy showWindowControls
                      then (case language of
                              JStr l \<Rightarrow> Inr (toUpperCase B l)
                            | _ \<Rightarrow> Inl (TypeError ''language.toUpperCase is not a function''))
                      else Inr [])
                of Inl e \<Rightarrow> Inl e
                 | Inr LANGUAGE \<Rightarrow>
                     (case escapeHTML code of
                        Inl e \<Rightarrow> Inl e
                      | Inr escaped \<Rightarrow>
                          Inr (document_head B opts ff LANGUAGE @
                               ''<pre><code>'' @ escaped @ ''</code></pre>'' @
                               document_tail opts)))
           | _ \<Rightarrow> Inl (TypeError ''fontFamily.includes is not a function''))"

text \<open>
  Options whose present fields have the documented types: strings for the theme, the
  colours, the font and the CSS lengths, booleans for the two switches, a number for the
  tab size, a number or a string for the line height (whose default is a string).
\<close>

definition is_string :: "json \<Rightarrow> bool" where
  "is_string v = (case v of JStr s \<Rightarrow> True | _ \<Rightarrow> False)"

definition is_boolean :: "json \<Rightarrow> bool" where
  "is_boolean v = (case v of JBool b \<Rightarrow> True | _ \<Rightarrow> False)"

definition is_number :: "json \<Rightarrow> bool" where
  "is_number v = (case v of JNum n \<Rightarrow> True | JDec t \<Rightarrow> True | JInf neg \<Rightarrow> True | _ \<Rightarrow> False)"

definition typed :: "(json \<Rightarrow> bool) \<Rightarrow> (string \<times> json) list \<Rightarrow> string \<Rightarrow> bool" where
  "typed T opts k = (case own_prop opts k of None \<Rightarrow> True | Some v \<Rightarrow> T v)"

definition well_formed :: "json option \<Rightarrow> bool" where
  "well_formed options =
     (case options of
        None \<Rightarrow> True
      | Some (JObj opts) \<Rightarrow>
          typed is_string opts ''theme'' \<and>
          typed is_string opts ''backgroundColor'' \<and>
          typed is_string opts ''fontFamily'' \<and>
          typed is_string opts ''fontSize'' \<and>
          typed is_string opts ''language'' \<and>
          typed is_boolean opts ''showLineNumbers'' \<and>
          typed is_boolean opts ''showWindowControls'' \<and>
          typed is_string opts ''padding'' \<and>
          typed (\<lambda>v. is_number v \<or> is_string v) opts ''lineHeight'' \<and>
          typed is_number opts ''tabSize''
      | _ \<Rightarrow> False)"

text \<open>
  Reading escaped text back: each entity gives the character it was written for, a
  \<^verbatim>\<open><br>\<close> gives a line feed and \<^verbatim>\<open>&nbsp;\<close> a space; the reading fails
  on a \<^verbatim>\<open><\<close>, \<^verbatim>\<open>>\<close> or \<^verbatim>\<open>&\<close> that is not part of one of them.
  This is the inverse the round trip asks for, not code of the server.
\<close>

definition tokens :: "(string \<times> char) list" where
  "tokens =
     [(''&amp;'', CHR ''&''), (''&lt;'', CHR ''<''), (''&gt;'', CHR ''>''),
      (''&quot;'', CHR 0x22), (''&#039;'', CHR 0x27), (''<br>'', LF), (''&nbsp;'', CHR '' '')]"

fun token_at :: "(string \<times> char) list \<Rightarrow> string \<Rightarrow> (char \<times> string) option" where
  "token_at [] s = None"
| "token_at ((t, c) # ts) s =
     (if prefix t s then Some (c, drop (length t) s) else token_at ts s)"

function unescapeHTML :: "string \<Rightarrow> string option" where
  "unescapeHTML [] = Some []"
| "unescapeHTML (c # cs) =
     (if c \<in> {CHR ''&'', CHR ''<'', CHR ''>''}
      then (case token_at tokens (c # cs) of
              None \<Rightarrow> None
            | Some (d, rest) \<Rightarrow>
                if length rest < length (c # cs)
                then map_option ((#) d) (unescapeHTML rest) else None)
      else map_option ((#) c) (unescapeHTML cs))"
  by pat_completeness auto
termination
  by (relation "measure length") auto

text \<open>What the escaping keeps of a tab: four spaces.\<close>

definition expand_tabs :: "string \<Rightarrow> string" where
  "expand_tabs s = replaceAll TAB ''    '' s"

text \<open>The number of places at which a text occurs in another.\<close>

fun occurrences :: "string \<Rightarrow> string \<Rightarrow> nat" where
  "occurrences p [] = (if p = [] then 1 else 0)"
| "occurrences p (c # cs) = (if prefix p (c # cs) then 1 else 0) + occurrences p cs"

text \<open>
  One choice of the library parameters, for the examples: upper-casing of the ASCII
  letters, the product of the default sizes, and a parser that knows one cache entry.
\<close>

definition upper_ascii :: "char \<Rightarrow> char" where
  "upper_ascii c =
     (case map_of (zip ''abcdefghijklmnopqrstuvwxyz'' ''ABCDEFGHIJKLMNOPQRSTUVWXYZ'') c of
        Some u \<Rightarrow> u
      | None \<Rightarrow> c)"

definition example_builtins :: builtins where
  \<open>example_builtins =
     \<lparr> toUpperCase = map upper_ascii,
       num_product = (\<lambda>a b. ''22.400000000000002''),
       JSON_parse = (\<lambda>s. if s = ''{"success":true,"cached":false,"timestamp":"t0"}''
                          then Inr (JObj [(''success'', JBool True), (''cached'', JBool False),
                                          (''timestamp'', JStr ''t0'')])
                          else Inl (Error ''Unexpected token'')) \<rparr>\<close>

section \<open>The result cache\<close>

text \<open>
  The Redis client, as far as the server uses it: the stored texts with their expiry in
  seconds, and for each key whether \<^verbatim>\<open>get\<close> or \<^verbatim>\<open>set\<close> rejects (a lost
  connection, a full store). \<^verbatim>\<open>redisClient\<close> is \<^const>\<open>None\<close> when no store is
  configured.
\<close>

record redis =
  entries :: "string \<Rightarrow> (string \<times> nat) option"
  get_rejects :: "string \<Rightarrow> bool"
  set_rejects :: "string \<Rightarrow> bool"

definition redis_get :: "redis \<Rightarrow> string \<Rightarrow> js_error + string option" where
  "redis_get r key =
     (if get_rejects r key then Inl (Error ''The client is closed'')
      else Inr (map_option fst (entries r key)))"

definition redis_set :: "redis \<Rightarrow> string \<Rightarrow> string \<Rightarrow> nat \<Rightarrow> js_error + redis" where
  "redis_set r key text seconds =
     (if set_rejects r key then Inl (Error ''The client is closed'')
      else Inr (r\<lparr>entries := (entries r)(key \<mapsto> (text, seconds))\<rparr>))"

text \<open>
  \<^verbatim>\<open>getFromCache\<close> and \<^verbatim>\<open>setToCache\<close> are async functions: \<^const>\<open>Inl\<close> would be
  a rejection. The inner \<^verbatim>\<open>case\<close> is the \<^verbatim>\<open>try\<close> block, the outer one the
  \<^verbatim>\<open>catch\<close>. \<^verbatim>\<open>null\<close> is \<^const>\<open>JNull\<close>.
\<close>

definition getFromCache :: "builtins \<Rightarrow> redis option \<Rightarrow> string \<Rightarrow> js_error + json" where
  "getFromCache B redisClient key =
     (case redisClient of
        None \<Rightarrow> Inr JNull
      | Some r \<Rightarrow>
          (case (case redis_get r key of
                   Inl e \<Rightarrow> Inl e
                 | Inr cached \<Rightarrow>
                     (case cached of
                        None \<Rightarrow> Inr JNull
                      | Some text \<Rightarrow> if text = [] then Inr JNull else JSON_parse B text))
           of Inl error \<Rightarrow> Inr JNull
            | Inr v \<Rightarrow> Inr v))"

text \<open>The result is the returned boolean and the client after the call.\<close>

definition setToCache ::
    "redis option \<Rightarrow> string \<Rightarrow> json \<Rightarrow> nat \<Rightarrow> (js_error + bool) \<times> redis option" where
  "setToCache redisClient key v ttl =
     (case redisClient of
        None \<Rightarrow> (Inr False, None)
      | Some r \<Rightarrow>
          (case redis_set r key (JSON_stringify v) ttl of
             Inl error \<Rightarrow> (Inr False, Some r)
           | Inr r' \<Rightarrow> (Inr True, Some r')))"

section \<open>Input validation\<close>

text \<open>
  The request body with its two fields. The validators of express-validator see a value
  through the library's string conversion: nothing for an absent field and for
  \<^verbatim>\<open>null\<close>, \<^verbatim>\<open>String(v)\<close> otherwise. A check that fails adds an error with
  the field's path and the message of the chain.
\<close>

record request =
  body_code :: "json option"
  body_options :: "json option"

definition validator_string :: "json option \<Rightarrow> string" where
  "validator_string v = (case v of None \<Rightarrow> [] | Some JNull \<Rightarrow> [] | Some j \<Rightarrow> String_of j)"

definition is_digit :: "char \<Rightarrow> bool" where
  "is_digit c = (48 \<le> (of_char c :: nat) \<and> (of_char c :: nat) \<le> 57)"

text \<open>\<^verbatim>\<open>/^\d+(px|em|rem)$/\<close>\<close>

definition matches_length :: "string \<Rightarrow> bool" where
  "matches_length s =
     (takeWhile is_digit s \<noteq> [] \<and> dropWhile is_digit s \<in> {''px'', ''em'', ''rem''})"

definition check :: "bool \<Rightarrow> string \<Rightarrow> string \<Rightarrow> (string \<times> string) list" where
  "check ok path msg = (if ok then [] else [(path, msg)])"

definition validate_code :: "json option \<Rightarrow> (string \<times> string) list" where
  "validate_code c =
     check (validator_string c \<noteq> []) ''code'' ''Code is required'' @
     check (case c of Some j \<Rightarrow> is_string j | None \<Rightarrow> False) ''code'' ''Code must be a string'' @
     check (length (validator_string c) \<le> 10000) ''code'' ''Code too long (max 10000 chars)''"

text \<open>\<^verbatim>\<open>options.theme\<close> and the like: a property of an object, absent otherwise.\<close>

definition option_field :: "json option \<Rightarrow> string \<Rightarrow> json option" where
  "option_field options k = (case options of Some (JObj kvs) \<Rightarrow> own_prop kvs k | _ \<Rightarrow> None)"

definition validate_optional ::
    "json option \<Rightarrow> (string \<Rightarrow> bool) \<Rightarrow> string \<Rightarrow> string \<Rightarrow> (string \<times> string) list" where
  "validate_optional v ok path msg =
     (case v of None \<Rightarrow> [] | Some j \<Rightarrow> check (ok (validator_string v)) path msg)"

definition validationResult :: "request \<Rightarrow> (string \<times> string) list" where
  "validationResult req =
     validate_code (body_code req) @
     validate_optional (option_field (body_options req) ''theme'')
       (\<lambda>s. s \<in> {''dark'', ''light'', ''solarized''}) ''options.theme'' ''Invalid theme'' @
     validate_optional (option_field (body_options req) ''fontSize'')
       matches_length ''options.fontSize'' ''Invalid font size format'' @
     validate_optional (option_field (body_options req) ''padding'')
       matches_length ''options.padding'' ''Invalid padding format''"

text \<open>
  An entry of \<^verbatim>\<open>errors.array()\<close>: the message, the field and where it was found (the
  library also echoes the value it checked).
\<close>

definition error_entry :: "string \<times> string \<Rightarrow> json" where
  "error_entry e = JObj [(''msg'', JStr (snd e)), (''param'', JStr (fst e)), (''location'', JStr ''body'')]"

section \<open>The cache key\<close>

text \<open>
  The key of line 540. Here the code is the list of its UTF-16 code units, so that every
  JavaScript string is covered. \<^verbatim>\<open>Buffer.from(code)\<close> is the UTF-8 encoding of the
  string, bytes as numbers below 256: a surrogate pair is one code point of four bytes, and
  a surrogate without its partner is written as U+FFFD, the bytes EF BF BD.
  \<^verbatim>\<open>toString('base64')\<close> is the standard alphabet with padding.
\<close>

definition high_surrogate :: "nat \<Rightarrow> bool" where
  "high_surrogate n = (0xD800 \<le> n \<and> n < 0xDC00)"

definition low_surrogate :: "nat \<Rightarrow> bool" where
  "low_surrogate n = (0xDC00 \<le> n \<and> n < 0xE000)"

definition code_point :: "nat \<Rightarrow> nat \<Rightarrow> nat" where
  "code_point hi lo = 0x10000 + (hi - 0xD800) * 0x400 + (lo - 0xDC00)"

definition four_bytes :: "nat \<Rightarrow> nat list" where
  "four_bytes cp =
     [0xF0 + cp div 262144, 0x80 + cp div 4096 mod 64, 0x80 + cp div 64 mod 64, 0x80 + cp mod 64]"

definition replacement :: "nat list" where
  "replacement = [0xEF, 0xBF, 0xBD]"

fun utf8 :: "16 word list \<Rightarrow> nat list" where
  "utf8 [] = []"
| "utf8 (u # us) =
     (if unat u < 0x80 then unat u # utf8 us
      else if unat u < 0x800 then (0xC0 + unat u div 64) # (0x80 + unat u mod 64) # utf8 us
      else if high_surrogate (unat u) then
        (case us of
           [] \<Rightarrow> replacement
         | v # vs \<Rightarrow>
             if low_surrogate (unat v) then four_bytes (code_point (unat u) (unat v)) @ utf8 vs
             else replacement @ utf8 us)
      else if low_surrogate (unat u) then replacement @ utf8 us
      else (0xE0 + unat u div 4096) # (0x80 + unat u div 64 mod 64) # (0x80 + unat u mod 64) #
           utf8 us)"

definition alphabet :: string where
  "alphabet = ''ABCDEFGHIJKLMNOPQRSTUVWXYZabcdefghijklmnopqrstuvwxyz0123456789+/''"

definition b64 :: "nat \<Rightarrow> char" where
  "b64 i = alphabet ! i"

fun base64 :: "nat list \<Rightarrow> string" where
  "base64 [] = []"
| "base64 [a] = [b64 (a div 4), b64 (a mod 4 * 16), CHR ''='', CHR ''='']"
| "base64 [a, b] =
     [b64 (a div 4), b64 (a mod 4 * 16 + b div 16), b64 (b mod 16 * 4), CHR ''='']"
| "base64 (a # b # c # bs) =
     [b64 (a div 4), b64 (a mod 4 * 16 + b div 16), b64 (b mod 16 * 4 + c div 64), b64 (c mod 64)]
     @ base64 bs"

definition fingerprint :: "16 word list \<Rightarrow> json \<Rightarrow> string" where
  "fingerprint code options = ''carbon:'' @ base64 (utf8 code) @ '':'' @ JSON_stringify options"

text \<open>The key of a request of the model, whose code has one character per code unit.\<close>

definition code_units :: "string \<Rightarrow> 16 word list" where
  "code_units s = map (\<lambda>c. of_nat (of_char c)) s"

definition cacheKey :: "string \<Rightarrow> json \<Rightarrow> string" where
  "cacheKey code options = fingerprint (code_units code) options"


section \<open>The values whose key can be read back\<close>

text \<open>
  The key loses nothing of a code without unpaired surrogates, and nothing of options that
  are values of JavaScript written in full by \<^verbatim>\<open>JSON.stringify\<close>.
\<close>

fun well_formed_utf16 :: "16 word list \<Rightarrow> bool" where
  "well_formed_utf16 [] = True"
| "well_formed_utf16 (u # us) =
     (if high_surrogate (unat u) then
        (case us of [] \<Rightarrow> False | v # vs \<Rightarrow> low_surrogate (unat v) \<and> well_formed_utf16 vs)
      else \<not> low_surrogate (unat u) \<and> well_formed_utf16 us)"

text \<open>
  The numerals of \<^verbatim>\<open>Number.prototype.toString\<close> for a finite number that is no
  integer below \<open>10\<^sup>2\<^sup>1\<close>: digits with a sign, a point or an exponent, and at least a
  point or an exponent.
\<close>

definition number_char :: "char \<Rightarrow> bool" where
  "number_char c = (is_digit c \<or> c \<in> {CHR ''.'', CHR ''e'', CHR ''+'', CHR ''-''})"









section \<open>Reading a cache key back\<close>

text \<open>
  The inverses used to show that the key determines the request: the decoding of UTF-8 to
  code units, the value of a decimal numeral, and the reading of a JSON string literal up
  to its closing quote. They are no code of the server.
\<close>

fun decode_utf8 :: "nat list \<Rightarrow> 16 word list" where
  "decode_utf8 [] = []"
| "decode_utf8 (b # bs) =
     (if b < 0x80 then of_nat b # decode_utf8 bs
      else if b < 0xE0 then
        (case bs of
           c # r \<Rightarrow> of_nat ((b - 0xC0) * 64 + (c - 0x80)) # decode_utf8 r
         | _ \<Rightarrow> [])
      else if b < 0xF0 then
        (case bs of
           c # d # r \<Rightarrow> of_nat ((b - 0xE0) * 4096 + (c - 0x80) * 64 + (d - 0x80)) # decode_utf8 r
         | _ \<Rightarrow> [])
      else
        (case bs of
           c # d # e # r \<Rightarrow>
             of_nat (0xD800 + ((b - 0xF0) * 262144 + (c - 0x80) * 4096 + (d - 0x80) * 64 + (e - 0x80)
                       - 0x10000) div 1024) #
             of_nat (0xDC00 + ((b - 0xF0) * 262144 + (c - 0x80) * 4096 + (d - 0x80) * 64 + (e - 0x80)
                       - 0x10000) mod 1024) #
             decode_utf8 r
         | _ \<Rightarrow> []))"

text \<open>What follows a value in the output never starts with a character of a numeral.\<close>

definition delimited :: "string \<Rightarrow> bool" where
  "delimited r = (case r of [] \<Rightarrow> True | c # cs \<Rightarrow> \<not> number_char c)"






section \<open>The render pipeline\<close>

text \<open>
  A page of the headless browser, as far as the handler drives it: what each awaited call
  does for this request. \<^const>\<open>Some\<close> error, or \<^const>\<open>Inl\<close>, is a rejection (a timeout
  of \<^verbatim>\<open>setContent\<close> or \<^verbatim>\<open>waitForFunction\<close> is one); \<^verbatim>\<open>evaluate\<close> gives the
  card's rectangle, or \<^verbatim>\<open>null\<close> when the document has no card.
\<close>

record rect =
  rect_x :: int
  rect_y :: int
  rect_width :: int
  rect_height :: int

record page =
  setContent :: "string \<Rightarrow> js_error option"
  waitForFunction :: "js_error option"
  evaluate :: "js_error + rect option"
  screenshot :: "rect \<Rightarrow> js_error + string"
  close :: "js_error option"

record browser =
  newPage :: "js_error + page"

record server =
  redisClient :: "redis option"
  browser :: "browser option"
  isBrowserReady :: bool
  development :: bool

record response =
  status :: nat
  body :: json

text \<open>What the handler did to the page and the cache, in order.\<close>

datatype event =
    CacheGet string
  | CacheSet string
  | PageOpened
  | ContentSet string
  | ReadyAwaited
  | Measured
  | Captured rect
  | CloseCalled

text \<open>
  The inner \<^verbatim>\<open>try\<close> block of the handler (lines 563 to 633) from
  \<^verbatim>\<open>newPage\<close> to the screenshot. \<^const>\<open>Inl\<close> is the error that reaches the
  \<^verbatim>\<open>catch\<close>.
\<close>

definition clip :: "rect \<Rightarrow> rect" where
  "clip d = \<lparr> rect_x = rect_x d, rect_y = rect_y d,
              rect_width = min (rect_width d) 1920, rect_height = min (rect_height d) 1080 \<rparr>"

definition capture ::
    "builtins \<Rightarrow> page \<Rightarrow> json option \<Rightarrow> json option \<Rightarrow> (js_error + rect \<times> string) \<times> event list" where
  "capture B p code options =
     (case generateHTMLTemplate B code options of
        Inl e \<Rightarrow> (Inl e, [])
      | Inr html \<Rightarrow>
          (case setContent p html of
             Some e \<Rightarrow> (Inl e, [ContentSet html])
           | None \<Rightarrow>
               (case waitForFunction p of
                  Some e \<Rightarrow> (Inl e, [ContentSet html, ReadyAwaited])
                | None \<Rightarrow>
                    (case evaluate p of
                       Inl e \<Rightarrow> (Inl e, [ContentSet html, ReadyAwaited, Measured])
                     | Inr None \<Rightarrow>
                         (Inl (Error ''Could not find code container''),
                          [ContentSet html, ReadyAwaited, Measured])
                     | Inr (Some dimensions) \<Rightarrow>
                         (case screenshot p (clip dimensions) of
                            Inl e \<Rightarrow>
                              (Inl e, [ContentSet html, ReadyAwaited, Measured,
                                       Captured (clip dimensions)])
                          | Inr shot \<Rightarrow>
                              (Inr (dimensions, shot),
                               [ContentSet html, ReadyAwaited, Measured,
                                Captured (clip dimensions)]))))))"

definition render_result :: "rect \<Rightarrow> string \<Rightarrow> string \<Rightarrow> json" where
  "render_result dimensions shot now =
     JObj [(''success'', JBool True),
           (''image'', JStr (''data:image/png;base64,'' @ shot)),
           (''dimensions'', JObj [(''width'', JNum (rect_width dimensions)),
                                  (''height'', JNum (rect_height dimensions))]),
           (''cached'', JBool False),
           (''timestamp'', JStr now)]"

text \<open>
  The whole \<^verbatim>\<open>try\<close>/\<^verbatim>\<open>catch\<close>: the page is opened, the capture runs, the page
  is closed and the result is cached and sent. The \<^verbatim>\<open>catch\<close> closes the page if
  \<^verbatim>\<open>page\<close> was assigned, swallows a failure of that close, and throws the error on.
  The result is the response or the error thrown on, the cache client after the call, and
  the events.
\<close>

definition render ::
    "builtins \<Rightarrow> string \<Rightarrow> browser \<Rightarrow> redis option \<Rightarrow> string \<Rightarrow> json option \<Rightarrow> json option
      \<Rightarrow> (js_error + response) \<times> redis option \<times> event list" where
  "render B now b client key code options =
     (case newPage b of
        Inl e \<Rightarrow> (Inl e, client, [])
      | Inr p \<Rightarrow>
          (case capture B p code options of
             (Inl e, evs) \<Rightarrow> (Inl e, client, PageOpened # evs @ [CloseCalled])
           | (Inr (dimensions, shot), evs) \<Rightarrow>
               (case close p of
                  Some e \<Rightarrow> (Inl e, client, PageOpened # evs @ [CloseCalled, CloseCalled])
                | None \<Rightarrow>
                    (let result = render_result dimensions shot now;
                         (stored, client') = setToCache client key result 3600
                     in (Inr \<lparr> status = 200, body = result \<rparr>, client',
                         PageOpened # evs @ [CloseCalled, CacheSet key])))))"

section \<open>POST /api/generate\<close>

text \<open>\<^verbatim>\<open>{...cached, cached: true, timestamp: ...}\<close>: the own properties of the cached value.\<close>

fun indexed :: "nat \<Rightarrow> json list \<Rightarrow> (string \<times> json) list" where
  "indexed i [] = []"
| "indexed i (v # vs) = (digits i, v) # indexed (Suc i) vs"

definition spread :: "json \<Rightarrow> (string \<times> json) list" where
  "spread v =
     (case v of
        JObj kvs \<Rightarrow> kvs
      | JArr vs \<Rightarrow> indexed 0 vs
      | JStr s \<Rightarrow> indexed 0 (map (\<lambda>c. JStr [c]) s)
      | _ \<Rightarrow> [])"

definition message_of :: "js_error \<Rightarrow> string" where
  "message_of e = (case e of TypeError m \<Rightarrow> m | Error m \<Rightarrow> m)"

definition failure :: "server \<Rightarrow> string \<Rightarrow> js_error \<Rightarrow> response" where
  "failure S now e =
     \<lparr> status = 500,
       body = JObj ([(''success'', JBool False), (''error'', JStr ''Failed to generate image'')] @
                    (if development S then [(''message'', JStr (message_of e))] else []) @
                    [(''timestamp'', JStr now)]) \<rparr>"

text \<open>
  \<^verbatim>\<open>options = {}\<close> in the destructuring of the body, and a property of a response body.
  The handler gives the response, the server after the request, and the events. \<open>now\<close> is
  \<^verbatim>\<open>new Date().toISOString()\<close> at the time the response is built.
  \<^verbatim>\<open>Buffer.from\<close> of a value that is not a string throws into the outer
  \<^verbatim>\<open>catch\<close>; validation lets no such value through.
\<close>

definition default_options :: "json option \<Rightarrow> json" where
  "default_options options = (case options of None \<Rightarrow> JObj [] | Some v \<Rightarrow> v)"

definition member :: "json \<Rightarrow> string \<Rightarrow> json option" where
  "member v k = (case v of JObj kvs \<Rightarrow> own_prop kvs k | _ \<Rightarrow> None)"

definition generate :: "builtins \<Rightarrow> string \<Rightarrow> server \<Rightarrow> request \<Rightarrow> response \<times> server \<times> event list" where
  "generate B now S req =
     (if validationResult req \<noteq> []
      then (\<lparr> status = 400,
              body = JObj [(''success'', JBool False),
                           (''errors'', JArr (map error_entry (validationResult req)))] \<rparr>, S, [])
      else
        (case body_code req of
           Some (JStr code) \<Rightarrow>
             (let options = default_options (body_options req);
                  key = cacheKey code options
              in case getFromCache B (redisClient S) key of
                   Inl e \<Rightarrow> (failure S now e, S, [CacheGet key])
                 | Inr cached \<Rightarrow>
                     if truthy cached
                     then (\<lparr> status = 200,
                             body = JObj (put ''timestamp'' (JStr now)
                                           (put ''cached'' (JBool True) (spread cached))) \<rparr>,
                           S, [CacheGet key])
                     else
                       (case (isBrowserReady S, browser S) of
                          (True, Some b) \<Rightarrow>
                            (case render B now b (redisClient S) key (Some (JStr code)) (Some options) of
                               (Inl e, client', evs) \<Rightarrow>
                                 (failure S now e, S\<lparr>redisClient := client'\<rparr>, CacheGet key # evs)
                             | (Inr res, client', evs) \<Rightarrow>
                                 (res, S\<lparr>redisClient := client'\<rparr>, CacheGet key # evs))
                        | _ \<Rightarrow>
                            (\<lparr> status = 503,
                               body = JObj [(''success'', JBool False),
                                            (''error'', JStr ''Image generation service is temporarily unavailable''),
                                            (''fallback'', JBool True)] \<rparr>,
                             S, [CacheGet key])))
         | _ \<Rightarrow>
             (failure S now
                (TypeError ''The first argument must be of type string or an instance of Buffer, ArrayBuffer, or Array or an Array-like Object.''),
              S, [])))"

section \<open>POST /api/generate/fallback\<close>

text \<open>
  The handler has no \<^verbatim>\<open>try\<close>: a truthy \<^verbatim>\<open>code\<close> that is not a string has no
  \<^verbatim>\<open>substring\<close>, and the TypeError leaves the handler.
\<close>

definition generate_fallback :: "string \<Rightarrow> json option \<Rightarrow> js_error + response" where
  "generate_fallback now code =
     (if falsy code
      then Inr \<lparr> status = 400,
                 body = JObj [(''success'', JBool False), (''error'', JStr ''Code is required'')] \<rparr>
      else case code of
             Some (JStr c) \<Rightarrow>
               Inr \<lparr> status = 200,
                     body = JObj [(''success'', JBool True),
                                  (''message'', JStr ''Fallback mode active. Install Puppeteer for image generation.''),
                                  (''codePreview'', JStr (take 200 c @ (if length c > 200 then ''...'' else []))),
                                  (''length'', JNum (int (length c))),
                                  (''timestamp'', JStr now)] \<rparr>
           | _ \<Rightarrow> Inl (TypeError ''code.substring is not a function''))"

section \<open>A server, a page and a request for the examples\<close>

definition example_page :: page where
  "example_page =
     \<lparr> setContent = (\<lambda>html. None),
       waitForFunction = None,
       evaluate = Inr (Some \<lparr> rect_x = 150, rect_y = 40, rect_width = 900, rect_height = 1400 \<rparr>),
       screenshot = (\<lambda>c. Inr ''iVBORw0KGgo=''),
       close = None \<rparr>"

definition example_server :: server where
  "example_server =
     \<lparr> redisClient = None,
       browser = Some \<lparr> newPage = Inr example_page \<rparr>,
       isBrowserReady = True,
       development = False \<rparr>"

definition example_redis :: redis where
  \<open>example_redis =
     \<lparr> entries = (\<lambda>k. Some (''{"success":true,"cached":false,"timestamp":"t0"}'', 3600)),
       get_rejects = (\<lambda>k. False),
       set_rejects = (\<lambda>k. False) \<rparr>\<close>

definition example_request :: request where
  "example_request = \<lparr> body_code = Some (JStr ''console.log(1)''), body_options = None \<rparr>"

section \<open>Properties of the escaping and of the builder\<close>

lemma replaceAll_append: "replaceAll c r (xs @ ys) = replaceAll c r xs @ replaceAll c r ys"
  by (simp add: replaceAll_def)

lemma replaceAll_concat: "replaceAll c r (concat xss) = concat (map (replaceAll c r) xss)"
  by (induction xss) (simp_all add: replaceAll_append, simp add: replaceAll_def)

lemma escape_one: "escape_string [c] = escape_char c"
  by (simp add: escape_string_def escape_char_def replaceAll_def LF_def TAB_def)

lemma escape_string_append: "escape_string (xs @ ys) = escape_string xs @ escape_string ys"
  by (simp add: escape_string_def replaceAll_append)

lemma escape_string_Nil: "escape_string [] = []"
  by (simp add: escape_string_def replaceAll_def)

lemma escape_string_Cons: "escape_string (c # s) = escape_char c @ escape_string s"
  using escape_string_append [of "[c]" s] by (simp add: escape_one)

lemma escape_string_chars: "escape_string s = concat (map escape_char s)"
  by (induction s) (simp_all add: escape_string_Nil escape_string_Cons)


lemma unescape_amp: "unescapeHTML (''&amp;'' @ rest) = map_option ((#) CHR ''&'') (unescapeHTML rest)"
  by (simp add: tokens_def)
lemma unescape_lt: "unescapeHTML (''&lt;'' @ rest) = map_option ((#) CHR ''<'') (unescapeHTML rest)"
  by (simp add: tokens_def)
lemma unescape_gt: "unescapeHTML (''&gt;'' @ rest) = map_option ((#) CHR ''>'') (unescapeHTML rest)"
  by (simp add: tokens_def)
lemma unescape_quot: "unescapeHTML (''&quot;'' @ rest) = map_option ((#) CHR 0x22) (unescapeHTML rest)"
  by (simp add: tokens_def)
lemma unescape_apos: "unescapeHTML (''&#039;'' @ rest) = map_option ((#) CHR 0x27) (unescapeHTML rest)"
  by (simp add: tokens_def)
lemma unescape_br: "unescapeHTML (''<br>'' @ rest) = map_option ((#) LF) (unescapeHTML rest)"
  by (simp add: tokens_def)
lemma unescape_nbsp: "unescapeHTML (''&nbsp;'' @ rest) = map_option ((#) CHR '' '') (unescapeHTML rest)"
  by (simp add: tokens_def)
lemma unescape_plain:
  "c \<noteq> CHR ''&'' \<Longrightarrow> c \<noteq> CHR ''<'' \<Longrightarrow> c \<noteq> CHR ''>'' \<Longrightarrow>
   unescapeHTML (c # rest) = map_option ((#) c) (unescapeHTML rest)"
  by simp


lemma unescape_tab:
  "unescapeHTML (''&nbsp;&nbsp;&nbsp;&nbsp;'' @ rest) = map_option ((@) ''    '') (unescapeHTML rest)"
  by (cases "unescapeHTML rest") (simp_all add: tokens_def)

lemma expand_tabs_one: "expand_tabs [c] = (if c = TAB then ''    '' else [c])"
  by (simp add: expand_tabs_def replaceAll_def)

lemma unescape_char:
  "unescapeHTML (escape_char c @ rest) = map_option ((@) (expand_tabs [c])) (unescapeHTML rest)"
proof (cases "c \<in> {CHR ''&'', CHR ''<'', CHR ''>'', CHR 0x22, CHR 0x27, LF, TAB, CHR '' ''}")
  case False
  then have plain: "escape_char c = [c]" "expand_tabs [c] = [c]"
    by (simp_all add: escape_char_def expand_tabs_one)
  from False have "c \<noteq> CHR ''&''" "c \<noteq> CHR ''<''" "c \<noteq> CHR ''>''"
    by simp_all
  then show ?thesis
    using unescape_plain [of c rest] by (cases "unescapeHTML rest") (simp_all add: plain)
next
  case True
  then have "c = CHR ''&'' \<or> c = CHR ''<'' \<or> c = CHR ''>'' \<or> c = CHR 0x22 \<or> c = CHR 0x27
      \<or> c = LF \<or> c = TAB \<or> c = CHR '' ''"
    by simp
  then show ?thesis
  proof (elim disjE)
    assume "c = CHR ''&''"
    then show ?thesis
      using unescape_amp [of rest]
      by (cases "unescapeHTML rest") (simp_all add: escape_char_def expand_tabs_one TAB_def)
  next
    assume "c = CHR ''<''"
    then show ?thesis
      using unescape_lt [of rest]
      by (cases "unescapeHTML rest") (simp_all add: escape_char_def expand_tabs_one TAB_def)
  next
    assume "c = CHR ''>''"
    then show ?thesis
      using unescape_gt [of rest]
      by (cases "unescapeHTML rest") (simp_all add: escape_char_def expand_tabs_one TAB_def)
  next
    assume "c = CHR 0x22"
    then show ?thesis
      using unescape_quot [of rest]
      by (cases "unescapeHTML rest") (simp_all add: escape_char_def expand_tabs_one TAB_def)
  next
    assume "c = CHR 0x27"
    then show ?thesis
      using unescape_apos [of rest]
      by (cases "unescapeHTML rest") (simp_all add: escape_char_def expand_tabs_one TAB_def)
  next
    assume "c = LF"
    then show ?thesis
      using unescape_br [of rest]
      by (cases "unescapeHTML rest") (simp_all add: escape_char_def expand_tabs_one TAB_def LF_def)
  next
    assume "c = TAB"
    then show ?thesis
      using unescape_tab [of rest]
      by (cases "unescapeHTML rest") (simp_all add: escape_char_def expand_tabs_one TAB_def LF_def)
  next
    assume "c = CHR '' ''"
    then show ?thesis
      using unescape_nbsp [of rest]
      by (cases "unescapeHTML rest") (simp_all add: escape_char_def expand_tabs_one TAB_def LF_def)
  qed
qed

lemma expand_tabs_Cons: "expand_tabs (c # s) = expand_tabs [c] @ expand_tabs s"
  by (simp add: expand_tabs_def replaceAll_def)

lemma unescape_escape: "unescapeHTML (escape_string s) = Some (expand_tabs s)"
proof (induction s)
  case Nil
  show ?case by (simp add: escape_string_Nil expand_tabs_def replaceAll_def)
next
  case (Cons c s)
  show ?case
    by (simp only: escape_string_Cons unescape_char Cons.IH expand_tabs_Cons [of c s] option.map)
qed

lemma tab_collision: "escape_string [TAB] = escape_string ''    '' \<and> [TAB] \<noteq> ''    ''"
  by (simp add: escape_string_def replaceAll_def TAB_def LF_def)


lemma field_typed_string:
  "typed is_string opts k \<Longrightarrow> is_string d \<Longrightarrow> \<exists>s. field opts k d = JStr s"
  by (auto simp: typed_def field_def is_string_def split: option.splits json.splits)

lemma field_typed_boolean:
  "typed is_boolean opts k \<Longrightarrow> is_boolean d \<Longrightarrow> \<exists>b. field opts k d = JBool b"
  by (auto simp: typed_def field_def is_boolean_def split: option.splits json.splits)

text \<open>
  For well-formed options the builder throws only if \<^const>\<open>escapeHTML\<close> does, and the
  text around the code block does not depend on the code.
\<close>

lemma builder_of_well_formed:
  assumes "well_formed options"
  shows "\<exists>ff L. \<forall>code. generateHTMLTemplate B code options =
           (case escapeHTML code of
              Inl e \<Rightarrow> Inl e
            | Inr escaped \<Rightarrow>
                Inr (document_head B (properties options) ff L @
                     ''<pre><code>'' @ escaped @ ''</code></pre>'' @
                     document_tail (properties options)))"
proof -
  let ?opts = "properties options"
  have nn: "options \<noteq> Some JNull"
    using assms by (auto simp: well_formed_def)
  have t: "typed is_string ?opts ''fontFamily''" "typed is_string ?opts ''language''"
    "typed is_boolean ?opts ''showWindowControls''"
    using assms
    by (auto simp: well_formed_def properties_def typed_def own_prop_def split: option.splits json.splits)
  obtain ff where ff: "field ?opts ''fontFamily'' (JStr ''Fira Code'') = JStr ff"
    using field_typed_string [OF t(1), of "JStr ''Fira Code''"] by (auto simp: is_string_def)
  obtain l where l: "field ?opts ''language'' (JStr ''auto'') = JStr l"
    using field_typed_string [OF t(2), of "JStr ''auto''"] by (auto simp: is_string_def)
  obtain w where w: "field ?opts ''showWindowControls'' (JBool True) = JBool w"
    using field_typed_boolean [OF t(3), of "JBool True"] by (auto simp: is_boolean_def)
  show ?thesis
    apply (rule exI [of _ ff])
    apply (rule exI [of _ "if w then toUpperCase B l else []"])
    using nn ff l w
    by (auto simp: generateHTMLTemplate_def Let_def split: sum.splits)
qed

lemma escapeHTML_string: "escapeHTML (Some (JStr code)) = Inr (escape_string code)"
  by (simp add: escapeHTML_def falsy_def escape_string_def replaceAll_def)


lemma occurrences_append_right: "occurrences p ys \<le> occurrences p (xs @ ys)"
  by (induction xs) simp_all

lemma occurrences_append_left: "p \<noteq> [] \<Longrightarrow> occurrences p xs \<le> occurrences p (xs @ ys)"
proof (induction xs)
  case Nil
  then show ?case by simp
next
  case (Cons c cs)
  have "prefix p (c # cs) \<Longrightarrow> prefix p (c # cs @ ys)"
    by (metis append_Cons prefix_prefix)
  with Cons show ?case by auto
qed

lemma occurrences_inside: "p \<noteq> [] \<Longrightarrow> occurrences p m \<le> occurrences p (xs @ m @ ys)"
  using occurrences_append_left [of p m ys] occurrences_append_right [of p "m @ ys" xs]
  by linarith

lemma example_upper: "toUpperCase example_builtins ''auto'' = ''AUTO''"
  by (simp add: example_builtins_def upper_ascii_def)

lemma example_code_document:
  "generateHTMLTemplate example_builtins (Some (JStr ''code'')) None =
     Inr (document_head example_builtins [] ''Fira Code'' ''AUTO'' @
          ''<pre><code>code</code></pre>'' @ document_tail [])"
  by (simp add: generateHTMLTemplate_def properties_def field_def own_prop_def escapeHTML_string
      escape_string_chars escape_char_def LF_def TAB_def Let_def example_upper)

text \<open>
  C2, as stated, fails twice. The escaped text of the code \<^verbatim>\<open>code\<close> occurs more than
  once in the document (the wrapping tags already contain it), and a tab and four spaces
  have the same escaped text, so that nothing read from the document gives the code back.
\<close>

theorem escaped_text_counterexample:
  "generateHTMLTemplate example_builtins (Some (JStr ''code'')) None =
     Inr (document_head example_builtins [] ''Fira Code'' ''AUTO'' @
          ''<pre><code>code</code></pre>'' @ document_tail []) \<and>
   1 < occurrences (escape_string ''code'')
         (document_head example_builtins [] ''Fira Code'' ''AUTO'' @
          ''<pre><code>code</code></pre>'' @ document_tail []) \<and>
   escape_string [TAB] = escape_string ''    '' \<and> [TAB] \<noteq> ''    ''"
proof -
  have "occurrences ''code'' ''<pre><code>code</code></pre>'' = 3"
    by simp
  then have "1 < occurrences ''code'' (document_head example_builtins [] ''Fira Code'' ''AUTO'' @
          ''<pre><code>code</code></pre>'' @ document_tail [])"
    using occurrences_inside [of "''code''" "''<pre><code>code</code></pre>''"
        "document_head example_builtins [] ''Fira Code'' ''AUTO''" "document_tail []"]
    by simp
  moreover have "escape_string ''code'' = ''code''"
    by (simp add: escape_string_chars escape_char_def LF_def TAB_def)
  ultimately show ?thesis
    using example_code_document tab_collision by simp
qed

text \<open>
  C2, amended. For well-formed options the document is a head, the code block and a tail,
  where head and tail do not depend on the code and the block holds the escaped code. The
  escaped text is the concatenation of what each character is written as, and reading it
  back, which fails on any \<^verbatim>\<open><\<close>, \<^verbatim>\<open>>\<close> or \<^verbatim>\<open>&\<close> outside an entity or a
  \<^verbatim>\<open><br>\<close>, gives the code with each tab expanded to four spaces.
\<close>

theorem escaped_code_block:
  assumes "well_formed options"
  shows "(\<exists>head tail. \<forall>code. generateHTMLTemplate B (Some (JStr code)) options =
            Inr (head @ ''<pre><code>'' @ escape_string code @ ''</code></pre>'' @ tail)) \<and>
         escape_string code = concat (map escape_char code) \<and>
         unescapeHTML (escape_string code) = Some (expand_tabs code)"
proof -
  obtain ff L where "\<forall>code. generateHTMLTemplate B code options =
           (case escapeHTML code of
              Inl e \<Rightarrow> Inl e
            | Inr escaped \<Rightarrow>
                Inr (document_head B (properties options) ff L @
                     ''<pre><code>'' @ escaped @ ''</code></pre>'' @
                     document_tail (properties options)))"
    using builder_of_well_formed [OF assms] by blast
  then have "\<forall>code. generateHTMLTemplate B (Some (JStr code)) options =
      Inr (document_head B (properties options) ff L @
           ''<pre><code>'' @ escape_string code @ ''</code></pre>'' @
           document_tail (properties options))"
    by (simp add: escapeHTML_string)
  then show ?thesis
    using escape_string_chars unescape_escape by blast
qed

theorem escaped_code_block_witness:
  "well_formed (Some (JObj [(''theme'', JStr ''light''), (''showLineNumbers'', JBool False)])) \<and>
   (\<exists>head tail. \<forall>code. generateHTMLTemplate example_builtins (Some (JStr code))
        (Some (JObj [(''theme'', JStr ''light''), (''showLineNumbers'', JBool False)])) =
      Inr (head @ ''<pre><code>'' @ escape_string code @ ''</code></pre>'' @ tail)) \<and>
   unescapeHTML (escape_string ''if (a < b) { x = a & b; }'') = Some ''if (a < b) { x = a & b; }''"
proof -
  have w: "well_formed (Some (JObj [(''theme'', JStr ''light''), (''showLineNumbers'', JBool False)]))"
    by (simp add: well_formed_def typed_def own_prop_def is_string_def is_boolean_def)
  have e: "expand_tabs ''if (a < b) { x = a & b; }'' = ''if (a < b) { x = a & b; }''"
    by (simp add: expand_tabs_def replaceAll_def TAB_def)
  note t = escaped_code_block [OF w, of example_builtins "''if (a < b) { x = a & b; }''"]
  from t have a: "\<exists>head tail. \<forall>code. generateHTMLTemplate example_builtins (Some (JStr code))
        (Some (JObj [(''theme'', JStr ''light''), (''showLineNumbers'', JBool False)])) =
      Inr (head @ ''<pre><code>'' @ escape_string code @ ''</code></pre>'' @ tail)"
    by (rule conjunct1)
  from t have "unescapeHTML (escape_string ''if (a < b) { x = a & b; }'') =
      Some (expand_tabs ''if (a < b) { x = a & b; }'')"
    by (elim conjE)
  then have b: "unescapeHTML (escape_string ''if (a < b) { x = a & b; }'') =
      Some ''if (a < b) { x = a & b; }''"
    by (simp only: e)
  from w a b show ?thesis by (intro conjI)
qed

text \<open>
  C9. A falsy argument, \<^verbatim>\<open>undefined\<close>, \<^verbatim>\<open>null\<close> and the empty string among
  them, makes \<^const>\<open>escapeHTML\<close> return the empty string without throwing, and the builder
  then returns a document whose code block is empty.
\<close>

theorem escapeHTML_falsy_empty:
  assumes "falsy v"
  shows "escapeHTML v = Inr [] \<and>
         (well_formed options \<longrightarrow>
            (\<exists>head tail. generateHTMLTemplate B v options =
               Inr (head @ ''<pre><code></code></pre>'' @ tail)))"
proof -
  have e: "escapeHTML v = Inr []"
    using assms by (simp add: escapeHTML_def)
  have "\<exists>head tail. generateHTMLTemplate B v options =
               Inr (head @ ''<pre><code></code></pre>'' @ tail)" if wf: "well_formed options"
  proof -
    obtain ff L where "generateHTMLTemplate B v options =
           (case escapeHTML v of
              Inl e \<Rightarrow> Inl e
            | Inr escaped \<Rightarrow>
                Inr (document_head B (properties options) ff L @
                     ''<pre><code>'' @ escaped @ ''</code></pre>'' @
                     document_tail (properties options)))"
      using builder_of_well_formed [OF wf] by blast
    then have "generateHTMLTemplate B v options =
        Inr (document_head B (properties options) ff L @
             ''<pre><code></code></pre>'' @ document_tail (properties options))"
      by (simp add: e)
    then show ?thesis by blast
  qed
  with e show ?thesis by blast
qed

theorem escapeHTML_falsy_empty_witness:
  "falsy None \<and> falsy (Some JNull) \<and> falsy (Some (JStr [])) \<and>
   escapeHTML None = Inr [] \<and> escapeHTML (Some JNull) = Inr [] \<and> escapeHTML (Some (JStr [])) = Inr [] \<and>
   well_formed None \<and>
   (\<exists>head tail. generateHTMLTemplate example_builtins None None =
      Inr (head @ ''<pre><code></code></pre>'' @ tail)) \<and>
   (\<exists>head tail. generateHTMLTemplate example_builtins (Some (JStr [])) None =
      Inr (head @ ''<pre><code></code></pre>'' @ tail))"
proof -
  have f: "falsy None" "falsy (Some JNull)" "falsy (Some (JStr []))"
    by (simp_all add: falsy_def)
  have w: "well_formed None"
    by (simp add: well_formed_def)
  show ?thesis
    using f w escapeHTML_falsy_empty [OF f(1), of None example_builtins]
      escapeHTML_falsy_empty [OF f(2), of None example_builtins]
      escapeHTML_falsy_empty [OF f(3), of None example_builtins]
    by simp
qed










section \<open>The cache key determines the request\<close>

subsection \<open>Base64\<close>

















subsection \<open>UTF-8\<close>







lemma decode_1: "b < 0x80 \<Longrightarrow> decode_utf8 (b # bs) = of_nat b # decode_utf8 bs"
  by simp











subsection \<open>Decimal numerals\<close>

















subsection \<open>String literals\<close>








subsection \<open>JSON texts\<close>










lemma delimited_simps [simp]:
  "delimited (CHR '']'' # r)" "delimited (CHR ''}'' # r)" "delimited (CHR '','' # r)" "delimited []"
  by (simp_all add: delimited_def number_char_def is_digit_def)







subsection \<open>The key of a request\<close>


lemma well_formed_code_units: "well_formed_utf16 (code_units s)"
proof (induction s)
  case Nil
  show ?case by (simp add: code_units_def)
next
  case (Cons c s)
  have "(of_char c :: nat) < 256" by simp
  then have "(of_char c :: nat) mod 65536 = of_char c"
    by (intro mod_less) linarith
  then have "unat (of_nat (of_char c) :: 16 word) = of_char c"
    by (simp add: unat_of_nat)
  moreover from \<open>(of_char c :: nat) < 256\<close>
  have "\<not> 55296 \<le> (of_char c :: nat)" "\<not> 56320 \<le> (of_char c :: nat)"
    by linarith+
  ultimately show ?case
    using Cons by (simp add: code_units_def high_surrogate_def low_surrogate_def)
qed


lemma lone_surrogate:
  "base64 (utf8 [0xD800]) = ''77+9''" "base64 (utf8 [0xD801]) = ''77+9''"
  by (simp_all add: high_surrogate_def low_surrogate_def replacement_def b64_def alphabet_def)




section \<open>Properties of the handlers\<close>

lemma valid_code:
  assumes "validationResult req = []"
  shows "\<exists>code. body_code req = Some (JStr code) \<and> code \<noteq> [] \<and> length code \<le> 10000"
proof -
  from assms have v: "validate_code (body_code req) = []"
    by (simp add: validationResult_def)
  then obtain j where j: "body_code req = Some j" "is_string j"
    by (cases "body_code req") (auto simp: validate_code_def check_def split: if_splits)
  then obtain code where c: "j = JStr code"
    by (cases j) (auto simp: is_string_def)
  with v j show ?thesis
    by (auto simp: validate_code_def check_def validator_string_def split: if_splits)
qed

lemma render_events:
  "render B now b client key code options = (r, client', evs) \<Longrightarrow>
     evs = [] \<or> (\<exists>post. evs = PageOpened # post \<and> CloseCalled \<in> set post)"
  by (auto simp: render_def Let_def split: sum.splits prod.splits option.splits)

lemma getFromCache_total: "\<exists>v. getFromCache B client key = Inr v"
  by (auto simp: getFromCache_def split: option.splits sum.splits)

lemma generate_events:
  "generate B now S req = (res, S', evs) \<Longrightarrow> PageOpened \<in> set evs \<Longrightarrow>
     \<exists>pre post. evs = pre @ PageOpened # post \<and> CloseCalled \<in> set post"
proof -
  assume g: "generate B now S req = (res, S', evs)" and o: "PageOpened \<in> set evs"
  show ?thesis
  proof (cases "validationResult req = []")
    case False
    with g o show ?thesis by (simp add: generate_def)
  next
    case True
    then obtain code where c: "body_code req = Some (JStr code)"
      using valid_code by blast
    define options where "options = default_options (body_options req)"
    define key where "key = cacheKey code options"
    obtain cached where gc: "getFromCache B (redisClient S) key = Inr cached"
      using getFromCache_total by blast
    show ?thesis
    proof (cases "truthy cached")
      case True
      with g o c gc \<open>validationResult req = []\<close> show ?thesis
        by (auto simp: generate_def Let_def options_def key_def)
    next
      case False
      show ?thesis
      proof (cases "isBrowserReady S \<and> browser S \<noteq> None")
        case False
        with g o c gc \<open>validationResult req = []\<close> \<open>\<not> truthy cached\<close> show ?thesis
          by (auto simp: generate_def Let_def options_def key_def split: bool.splits option.splits)
      next
        case True
        then obtain b where b: "browser S = Some b" "isBrowserReady S" by auto
        obtain r client' revs where
          r: "render B now b (redisClient S) key (Some (JStr code)) (Some options) = (r, client', revs)"
          by (cases "render B now b (redisClient S) key (Some (JStr code)) (Some options)") auto
        from g c gc \<open>validationResult req = []\<close> \<open>\<not> truthy cached\<close> b r
        have evs: "evs = CacheGet key # revs"
          by (auto simp: generate_def Let_def options_def key_def split: sum.splits)
        from render_events [OF r] o evs obtain post where
          "revs = PageOpened # post" "CloseCalled \<in> set post"
          by auto
        with evs have "evs = [CacheGet key] @ PageOpened # post \<and> CloseCalled \<in> set post"
          by simp
        then show ?thesis by blast
      qed
    qed
  qed
qed


lemma setToCache_total: "\<exists>ok. fst (setToCache client key v ttl) = Inr ok"
  by (auto simp: setToCache_def split: option.splits sum.splits)

lemma capture_success:
  assumes "generateHTMLTemplate B code options = Inr html"
    and "setContent p html = None" and "waitForFunction p = None"
    and "evaluate p = Inr (Some d)" and "screenshot p (clip d) = Inr shot"
  shows "capture B p code options =
           (Inr (d, shot), [ContentSet html, ReadyAwaited, Measured, Captured (clip d)])"
  using assms by (simp add: capture_def)

lemma generate_rendered:
  assumes v: "validationResult req = []"
    and c: "body_code req = Some (JStr code)"
    and miss: "getFromCache B (redisClient S) (cacheKey code (default_options (body_options req))) = Inr cached"
      "\<not> truthy cached"
    and b: "isBrowserReady S" "browser S = Some b" "newPage b = Inr p"
    and cap: "capture B p (Some (JStr code)) (Some (default_options (body_options req))) = (Inr (d, shot), evs)"
    and cl: "close p = None"
  shows "fst (generate B now S req) = \<lparr> status = 200, body = render_result d shot now \<rparr>"
  using assms
  by (simp add: generate_def render_def Let_def split: prod.splits)

lemma cache_miss_without_store [simp]: "getFromCache B None key = Inr JNull"
  by (simp add: getFromCache_def)

lemma own_prop_put_same: "own_prop (put k v kvs) k = Some v"
  by (induction kvs) (auto simp: own_prop_def)

lemma own_prop_put_other: "k' \<noteq> k \<Longrightarrow> own_prop (put k v kvs) k' = own_prop kvs k'"
  by (induction kvs) (auto simp: own_prop_def)

lemma generate_cached:
  assumes v: "validationResult req = []"
    and c: "body_code req = Some (JStr code)"
    and hit: "getFromCache B (redisClient S) (cacheKey code (default_options (body_options req))) = Inr cached"
      "truthy cached"
  shows "generate B now S req =
           (\<lparr> status = 200,
              body = JObj (put ''timestamp'' (JStr now) (put ''cached'' (JBool True) (spread cached))) \<rparr>,
            S, [CacheGet (cacheKey code (default_options (body_options req)))])"
  using assms by (simp add: generate_def Let_def)

lemma generate_unavailable:
  assumes v: "validationResult req = []"
    and c: "body_code req = Some (JStr code)"
    and miss: "getFromCache B (redisClient S) (cacheKey code (default_options (body_options req))) = Inr cached"
      "\<not> truthy cached"
    and nb: "\<not> isBrowserReady S \<or> browser S = None"
  shows "fst (generate B now S req) =
           \<lparr> status = 503,
             body = JObj [(''success'', JBool False),
                          (''error'', JStr ''Image generation service is temporarily unavailable''),
                          (''fallback'', JBool True)] \<rparr>"
  using assms by (auto simp: generate_def Let_def split: bool.splits option.splits)

lemma generate_invalid:
  "validationResult req \<noteq> [] \<Longrightarrow>
   generate B now S req =
     (\<lparr> status = 400,
        body = JObj [(''success'', JBool False),
                     (''errors'', JArr (map error_entry (validationResult req)))] \<rparr>, S, [])"
  by (simp add: generate_def)

lemma validate_code_string:
  "validate_code (Some (JStr code)) =
     check (code \<noteq> []) ''code'' ''Code is required'' @
     check (length code \<le> 10000) ''code'' ''Code too long (max 10000 chars)''"
  by (simp add: validate_code_def validator_string_def is_string_def check_def)

lemma example_document:
  "\<exists>html. generateHTMLTemplate example_builtins (Some (JStr ''console.log(1)'')) (Some (JObj [])) = Inr html"
  by (simp add: generateHTMLTemplate_def properties_def field_def own_prop_def escapeHTML_def
      falsy_def Let_def)

lemma example_capture:
  "\<exists>evs. capture example_builtins example_page (Some (JStr ''console.log(1)'')) (Some (JObj [])) =
     (Inr (\<lparr> rect_x = 150, rect_y = 40, rect_width = 900, rect_height = 1400 \<rparr>, ''iVBORw0KGgo=''), evs)"
proof -
  obtain html where
    h: "generateHTMLTemplate example_builtins (Some (JStr ''console.log(1)'')) (Some (JObj [])) = Inr html"
    using example_document by blast
  show ?thesis
    using capture_success [OF h, of example_page] by (simp add: example_page_def)
qed

lemma example_valid: "validationResult example_request = []"
  by (simp add: validationResult_def example_request_def validate_code_string check_def
      validate_optional_def option_field_def)

text \<open>The example page, except that the document has no card.\<close>

lemma example_no_card:
  "\<exists>html. generate example_builtins ''t1''
      (example_server\<lparr>browser := Some \<lparr> newPage = Inr (example_page\<lparr>evaluate := Inr None\<rparr>) \<rparr>\<rparr>)
      example_request =
    (failure example_server ''t1'' (Error ''Could not find code container''),
     example_server\<lparr>browser := Some \<lparr> newPage = Inr (example_page\<lparr>evaluate := Inr None\<rparr>) \<rparr>\<rparr>,
     [CacheGet (cacheKey ''console.log(1)'' (JObj [])), PageOpened, ContentSet html,
      ReadyAwaited, Measured, CloseCalled])"
proof -
  obtain html where
    h: "generateHTMLTemplate example_builtins (Some (JStr ''console.log(1)'')) (Some (JObj [])) = Inr html"
    using example_document by blast
  have "capture example_builtins (example_page\<lparr>evaluate := Inr None\<rparr>)
          (Some (JStr ''console.log(1)'')) (Some (JObj [])) =
        (Inl (Error ''Could not find code container''), [ContentSet html, ReadyAwaited, Measured])"
    by (simp add: capture_def h example_page_def)
  then show ?thesis
    using example_valid
    by (simp add: generate_def render_def Let_def example_request_def example_server_def
        default_options_def failure_def)
qed

text \<open>
  C3. On every path of the handler on which \<^verbatim>\<open>newPage\<close> resolved, \<^verbatim>\<open>page.close()\<close>
  is called afterwards: after the screenshot on success, in the \<^verbatim>\<open>catch\<close> when the
  builder, \<^verbatim>\<open>setContent\<close>, \<^verbatim>\<open>waitForFunction\<close> (a timeout is a rejection of these),
  the measurement or the screenshot fails, and when the measurement finds no card.
\<close>

theorem page_closed_on_every_path:
  assumes "generate B now S req = (res, S', evs)" and "PageOpened \<in> set evs"
  shows "\<exists>pre post. evs = pre @ PageOpened # post \<and> CloseCalled \<in> set post"
  using assms by (rule generate_events)

theorem page_closed_on_every_path_witness:
  "PageOpened \<in> set (snd (snd (generate example_builtins ''t1''
      (example_server\<lparr>browser := Some \<lparr> newPage = Inr (example_page\<lparr>evaluate := Inr None\<rparr>) \<rparr>\<rparr>)
      example_request))) \<and>
   (\<exists>pre post. snd (snd (generate example_builtins ''t1''
      (example_server\<lparr>browser := Some \<lparr> newPage = Inr (example_page\<lparr>evaluate := Inr None\<rparr>) \<rparr>\<rparr>)
      example_request)) = pre @ PageOpened # post \<and> CloseCalled \<in> set post) \<and>
   status (fst (generate example_builtins ''t1''
      (example_server\<lparr>browser := Some \<lparr> newPage = Inr (example_page\<lparr>evaluate := Inr None\<rparr>) \<rparr>\<rparr>)
      example_request)) = 500"
proof -
  let ?S = "example_server\<lparr>browser := Some \<lparr> newPage = Inr (example_page\<lparr>evaluate := Inr None\<rparr>) \<rparr>\<rparr>"
  obtain html where g: "generate example_builtins ''t1'' ?S example_request =
    (failure example_server ''t1'' (Error ''Could not find code container''), ?S,
     [CacheGet (cacheKey ''console.log(1)'' (JObj [])), PageOpened, ContentSet html,
      ReadyAwaited, Measured, CloseCalled])"
    using example_no_card by blast
  have o: "PageOpened \<in> set [CacheGet (cacheKey ''console.log(1)'' (JObj [])), PageOpened,
      ContentSet html, ReadyAwaited, Measured, CloseCalled]"
    by simp
  from page_closed_on_every_path [OF g o] o show ?thesis
    by (simp add: g failure_def)
qed

text \<open>
  C5. \<^const>\<open>getFromCache\<close> and \<^const>\<open>setToCache\<close> never reject: a read that the store
  rejects, or whose text does not parse, gives \<^verbatim>\<open>null\<close>, and a write that the store
  rejects gives \<^verbatim>\<open>false\<close> and leaves the client as it was. Without a store the read
  gives \<^verbatim>\<open>null\<close> and the write does nothing, and a request whose render succeeds is
  answered with status 200 and \<^verbatim>\<open>cached: false\<close>.
\<close>

theorem cache_failures_absorbed:
  "(\<exists>v. getFromCache B client key = Inr v) \<and>
   (\<exists>ok. fst (setToCache client key v ttl) = Inr ok) \<and>
   (get_rejects r key \<longrightarrow> getFromCache B (Some r) key = Inr JNull) \<and>
   (set_rejects r key \<longrightarrow> setToCache (Some r) key v ttl = (Inr False, Some r)) \<and>
   getFromCache B None key = Inr JNull \<and>
   setToCache None key v ttl = (Inr False, None) \<and>
   (redisClient S = None \<longrightarrow> validationResult req = [] \<longrightarrow> body_code req = Some (JStr code) \<longrightarrow>
    isBrowserReady S \<longrightarrow> browser S = Some b \<longrightarrow> newPage b = Inr p \<longrightarrow>
    capture B p (Some (JStr code)) (Some (default_options (body_options req))) = (Inr (d, shot), evs) \<longrightarrow>
    close p = None \<longrightarrow>
      status (fst (generate B now S req)) = 200 \<and>
      member (body (fst (generate B now S req))) ''cached'' = Some (JBool False) \<and>
      member (body (fst (generate B now S req))) ''success'' = Some (JBool True))"
proof -
  have "status (fst (generate B now S req)) = 200 \<and>
      member (body (fst (generate B now S req))) ''cached'' = Some (JBool False) \<and>
      member (body (fst (generate B now S req))) ''success'' = Some (JBool True)"
    if "redisClient S = None" "validationResult req = []" "body_code req = Some (JStr code)"
      "isBrowserReady S" "browser S = Some b" "newPage b = Inr p"
      "capture B p (Some (JStr code)) (Some (default_options (body_options req))) = (Inr (d, shot), evs)"
      "close p = None"
  proof -
    have "getFromCache B (redisClient S) (cacheKey code (default_options (body_options req))) = Inr JNull"
      by (simp add: that(1))
    then have "fst (generate B now S req) = \<lparr> status = 200, body = render_result d shot now \<rparr>"
      using that by (intro generate_rendered [where cached = JNull]) simp_all
    then show ?thesis
      by (simp add: render_result_def member_def own_prop_def)
  qed
  moreover have "getFromCache B (Some r) key = Inr JNull" if "get_rejects r key"
    using that by (simp add: getFromCache_def redis_get_def)
  moreover have "setToCache (Some r) key v ttl = (Inr False, Some r)" if "set_rejects r key"
    using that by (simp add: setToCache_def redis_set_def)
  moreover have "setToCache None key v ttl = (Inr False, None)"
    by (simp add: setToCache_def)
  ultimately show ?thesis
    using getFromCache_total [of B client key] setToCache_total [of client key v ttl]
    by simp
qed

theorem cache_failures_absorbed_witness:
  "get_rejects (example_redis\<lparr>get_rejects := (\<lambda>k. True)\<rparr>) ''k'' \<and>
   getFromCache example_builtins (Some (example_redis\<lparr>get_rejects := (\<lambda>k. True)\<rparr>)) ''k'' = Inr JNull \<and>
   set_rejects (example_redis\<lparr>set_rejects := (\<lambda>k. True)\<rparr>) ''k'' \<and>
   setToCache (Some (example_redis\<lparr>set_rejects := (\<lambda>k. True)\<rparr>)) ''k'' (JBool True) 3600 =
     (Inr False, Some (example_redis\<lparr>set_rejects := (\<lambda>k. True)\<rparr>)) \<and>
   redisClient example_server = None \<and> validationResult example_request = [] \<and>
   status (fst (generate example_builtins ''t1'' example_server example_request)) = 200 \<and>
   member (body (fst (generate example_builtins ''t1'' example_server example_request))) ''cached'' =
     Some (JBool False)"
proof -
  obtain evs where c: "capture example_builtins example_page (Some (JStr ''console.log(1)''))
      (Some (default_options (body_options example_request))) =
     (Inr (\<lparr> rect_x = 150, rect_y = 40, rect_width = 900, rect_height = 1400 \<rparr>, ''iVBORw0KGgo=''), evs)"
    using example_capture by (auto simp: default_options_def example_request_def)
  have g: "get_rejects (example_redis\<lparr>get_rejects := (\<lambda>k. True)\<rparr>) ''k''"
    "set_rejects (example_redis\<lparr>set_rejects := (\<lambda>k. True)\<rparr>) ''k''"
    by simp_all
  have s: "redisClient example_server = None" "isBrowserReady example_server"
    "browser example_server = Some \<lparr> newPage = Inr example_page \<rparr>"
    "body_code example_request = Some (JStr ''console.log(1)'')" "close example_page = None"
    by (simp_all add: example_server_def example_request_def example_page_def)
  note t1 = cache_failures_absorbed [of example_builtins None "''k''" "JBool True" 3600
      "example_redis\<lparr>get_rejects := (\<lambda>k. True)\<rparr>" example_server example_request
      "''console.log(1)''" "\<lparr> newPage = Inr example_page \<rparr>" example_page
      "\<lparr> rect_x = 150, rect_y = 40, rect_width = 900, rect_height = 1400 \<rparr>" "''iVBORw0KGgo=''" evs "''t1''"]
  note t2 = cache_failures_absorbed [of example_builtins None "''k''" "JBool True" 3600
      "example_redis\<lparr>set_rejects := (\<lambda>k. True)\<rparr>" example_server example_request
      "''console.log(1)''" "\<lparr> newPage = Inr example_page \<rparr>" example_page
      "\<lparr> rect_x = 150, rect_y = 40, rect_width = 900, rect_height = 1400 \<rparr>" "''iVBORw0KGgo=''" evs "''t1''"]
  from t1 t2 g s c example_valid show ?thesis
    by simp
qed


text \<open>
  C6. With the renderer not ready, a valid request that the cache does not answer gets
  status 503 with \<^verbatim>\<open>success: false\<close> and \<^verbatim>\<open>fallback: true\<close>, and the fallback
  endpoint answers the same code with status 200 and a preview that is the first 200
  characters of the code, followed by \<^verbatim>\<open>...\<close> exactly when the code is longer.
\<close>

theorem renderer_unavailable:
  assumes "validationResult req = []" and "body_code req = Some (JStr code)"
    and "\<not> isBrowserReady S"
    and "getFromCache B (redisClient S) (cacheKey code (default_options (body_options req))) = Inr cached"
    and "\<not> truthy cached"
  shows "status (fst (generate B now S req)) = 503 \<and>
         member (body (fst (generate B now S req))) ''success'' = Some (JBool False) \<and>
         member (body (fst (generate B now S req))) ''fallback'' = Some (JBool True) \<and>
         (\<exists>res. generate_fallback now (body_code req) = Inr res \<and> status res = 200 \<and>
            member (body res) ''codePreview'' =
              Some (JStr (take 200 code @ (if 200 < length code then ''...'' else []))))"
proof -
  have "fst (generate B now S req) =
           \<lparr> status = 503,
             body = JObj [(''success'', JBool False),
                          (''error'', JStr ''Image generation service is temporarily unavailable''),
                          (''fallback'', JBool True)] \<rparr>"
    using assms by (intro generate_unavailable) simp_all
  moreover have "code \<noteq> []"
    using valid_code [OF assms(1)] assms(2) by auto
  ultimately show ?thesis
    using assms(2) by (simp add: member_def own_prop_def generate_fallback_def falsy_def)
qed

theorem renderer_unavailable_witness:
  "validationResult \<lparr> body_code = Some (JStr (replicate 201 CHR ''x'')), body_options = None \<rparr> = [] \<and>
   \<not> isBrowserReady (example_server\<lparr>browser := None, isBrowserReady := False\<rparr>) \<and>
   status (fst (generate example_builtins ''t1''
       (example_server\<lparr>browser := None, isBrowserReady := False\<rparr>)
       \<lparr> body_code = Some (JStr (replicate 201 CHR ''x'')), body_options = None \<rparr>)) = 503 \<and>
   member (body (fst (generate example_builtins ''t1''
       (example_server\<lparr>browser := None, isBrowserReady := False\<rparr>)
       \<lparr> body_code = Some (JStr (replicate 201 CHR ''x'')), body_options = None \<rparr>))) ''fallback'' =
     Some (JBool True) \<and>
   (\<exists>res. generate_fallback ''t1'' (Some (JStr (replicate 201 CHR ''x''))) = Inr res \<and> status res = 200 \<and>
      member (body res) ''codePreview'' = Some (JStr (replicate 200 CHR ''x'' @ ''...'')))"
proof -
  let ?req = "\<lparr> body_code = Some (JStr (replicate 201 CHR ''x'')), body_options = None \<rparr>"
  let ?S = "example_server\<lparr>browser := None, isBrowserReady := False\<rparr>"
  have v: "validationResult ?req = []"
    by (simp add: validationResult_def validate_code_string check_def validate_optional_def
        option_field_def)
  have c: "body_code ?req = Some (JStr (replicate 201 CHR ''x''))"
    by simp
  have n: "\<not> isBrowserReady ?S"
    by simp
  have m: "getFromCache example_builtins (redisClient ?S)
      (cacheKey (replicate 201 CHR ''x'') (default_options (body_options ?req))) = Inr JNull"
    by (simp add: example_server_def)
  have t: "\<not> truthy JNull"
    by simp
  from renderer_unavailable [OF v c n m t, of "''t1''"] v n show ?thesis
    by simp
qed

text \<open>
  C7, as stated, fails: the body of a successful render has no top-level
  \<^verbatim>\<open>width\<close> or \<^verbatim>\<open>height\<close>; the two numbers are inside \<^verbatim>\<open>dimensions\<close>.
\<close>

lemma example_rendered:
  "fst (generate example_builtins ''t1'' example_server example_request) =
     \<lparr> status = 200,
       body = render_result \<lparr> rect_x = 150, rect_y = 40, rect_width = 900, rect_height = 1400 \<rparr>
                ''iVBORw0KGgo='' ''t1'' \<rparr>"
proof -
  obtain evs where c: "capture example_builtins example_page (Some (JStr ''console.log(1)''))
      (Some (default_options (body_options example_request))) =
     (Inr (\<lparr> rect_x = 150, rect_y = 40, rect_width = 900, rect_height = 1400 \<rparr>, ''iVBORw0KGgo=''), evs)"
    using example_capture by (auto simp: default_options_def example_request_def)
  show ?thesis
    by (rule generate_rendered [OF example_valid _ _ _ _ _ _ c, where cached = JNull
          and b = "\<lparr> newPage = Inr example_page \<rparr>"])
      (simp_all add: example_request_def example_server_def example_page_def)
qed

theorem response_shape_counterexample:
  "status (fst (generate example_builtins ''t1'' example_server example_request)) = 200 \<and>
   member (body (fst (generate example_builtins ''t1'' example_server example_request))) ''success'' =
     Some (JBool True) \<and>
   member (body (fst (generate example_builtins ''t1'' example_server example_request))) ''width'' = None \<and>
   member (body (fst (generate example_builtins ''t1'' example_server example_request))) ''height'' = None \<and>
   member (body (fst (generate example_builtins ''t1'' example_server example_request))) ''dimensions'' =
     Some (JObj [(''width'', JNum 900), (''height'', JNum 1400)])"
  by (simp add: example_rendered render_result_def member_def own_prop_def)

text \<open>
  C7, amended. On every successful render the body is the object with \<^verbatim>\<open>success\<close>
  true, \<^verbatim>\<open>image\<close> the PNG data URI of the screenshot, \<^verbatim>\<open>dimensions\<close> an object
  with the integers \<^verbatim>\<open>width\<close> and \<^verbatim>\<open>height\<close> that were measured for the card,
  \<^verbatim>\<open>cached\<close> false and \<^verbatim>\<open>timestamp\<close>, in this order, with status 200.
\<close>

theorem response_shape:
  assumes "validationResult req = []" and "body_code req = Some (JStr code)"
    and "getFromCache B (redisClient S) (cacheKey code (default_options (body_options req))) = Inr cached"
    and "\<not> truthy cached"
    and "isBrowserReady S" and "browser S = Some b" and "newPage b = Inr p"
    and "generateHTMLTemplate B (Some (JStr code)) (Some (default_options (body_options req))) = Inr html"
    and "setContent p html = None" and "waitForFunction p = None"
    and "evaluate p = Inr (Some d)" and "screenshot p (clip d) = Inr shot"
    and "close p = None"
  shows "fst (generate B now S req) =
           \<lparr> status = 200,
             body = JObj [(''success'', JBool True),
                          (''image'', JStr (''data:image/png;base64,'' @ shot)),
                          (''dimensions'', JObj [(''width'', JNum (rect_width d)),
                                                 (''height'', JNum (rect_height d))]),
                          (''cached'', JBool False),
                          (''timestamp'', JStr now)] \<rparr>"
proof -
  have "capture B p (Some (JStr code)) (Some (default_options (body_options req))) =
      (Inr (d, shot), [ContentSet html, ReadyAwaited, Measured, Captured (clip d)])"
    using assms by (intro capture_success) simp_all
  then have "fst (generate B now S req) = \<lparr> status = 200, body = render_result d shot now \<rparr>"
    using assms by (intro generate_rendered) simp_all
  then show ?thesis
    by (simp add: render_result_def)
qed

theorem response_shape_witness:
  "validationResult example_request = [] \<and>
   isBrowserReady example_server \<and>
   evaluate example_page = Inr (Some \<lparr> rect_x = 150, rect_y = 40, rect_width = 900, rect_height = 1400 \<rparr>) \<and>
   fst (generate example_builtins ''t1'' example_server example_request) =
     \<lparr> status = 200,
       body = JObj [(''success'', JBool True),
                    (''image'', JStr ''data:image/png;base64,iVBORw0KGgo=''),
                    (''dimensions'', JObj [(''width'', JNum 900), (''height'', JNum 1400)]),
                    (''cached'', JBool False),
                    (''timestamp'', JStr ''t1'')] \<rparr>"
proof -
  obtain html where h: "generateHTMLTemplate example_builtins (Some (JStr ''console.log(1)''))
      (Some (default_options (body_options example_request))) = Inr html"
    using example_document by (auto simp: default_options_def example_request_def)
  have s: "body_code example_request = Some (JStr ''console.log(1)'')"
    "getFromCache example_builtins (redisClient example_server)
       (cacheKey ''console.log(1)'' (default_options (body_options example_request))) = Inr JNull"
    "\<not> truthy JNull" "isBrowserReady example_server"
    "browser example_server = Some \<lparr> newPage = Inr example_page \<rparr>"
    "newPage \<lparr> newPage = Inr example_page \<rparr> = Inr example_page"
    by (simp_all add: example_request_def example_server_def)
  have p: "setContent example_page html = None" "waitForFunction example_page = None"
    "evaluate example_page = Inr (Some \<lparr> rect_x = 150, rect_y = 40, rect_width = 900, rect_height = 1400 \<rparr>)"
    "screenshot example_page (clip \<lparr> rect_x = 150, rect_y = 40, rect_width = 900, rect_height = 1400 \<rparr>) =
       Inr ''iVBORw0KGgo=''"
    "close example_page = None"
    by (simp_all add: example_page_def)
  from response_shape [OF example_valid s h p, of "''t1''"] example_valid s(4) p(3)
  show ?thesis by simp
qed

text \<open>
  C8. A code of exactly 10000 characters passes the validators of \<^verbatim>\<open>code\<close>, and with
  no options the request is not answered with status 400; a code of 10001 characters is
  answered with status 400 and the list of errors, which names the field and the length
  rule, and the handler has touched neither the cache nor the browser.
\<close>

theorem code_length_boundary:
  "(length code = 10000 \<longrightarrow>
      validate_code (Some (JStr code)) = [] \<and>
      (body_code req = Some (JStr code) \<longrightarrow> body_options req = None \<longrightarrow>
         validationResult req = [] \<and> status (fst (generate B now S req)) \<noteq> 400)) \<and>
   (length code = 10001 \<longrightarrow> body_code req = Some (JStr code) \<longrightarrow>
      (''code'', ''Code too long (max 10000 chars)'') \<in> set (validationResult req) \<and>
      generate B now S req =
        (\<lparr> status = 400,
           body = JObj [(''success'', JBool False),
                        (''errors'', JArr (map error_entry (validationResult req)))] \<rparr>, S, []))"
proof -
  have a: "validate_code (Some (JStr code)) = []" if "length code = 10000"
    using that by (auto simp: validate_code_string check_def)
  have b: "validationResult req = [] \<and> status (fst (generate B now S req)) \<noteq> 400"
    if l: "length code = 10000" and c: "body_code req = Some (JStr code)" and o: "body_options req = None"
  proof -
    have v: "validationResult req = []"
      using a [OF l] c o by (simp add: validationResult_def validate_optional_def option_field_def)
    obtain cached where
      g: "getFromCache B (redisClient S) (cacheKey code (default_options (body_options req))) = Inr cached"
      using getFromCache_total by blast
    have "status (fst (generate B now S req)) \<noteq> 400"
      using v c g
      by (auto simp: generate_def Let_def failure_def render_def
          split: sum.splits prod.splits option.splits bool.splits)
    with v show ?thesis by simp
  qed
  have c: "(''code'', ''Code too long (max 10000 chars)'') \<in> set (validationResult req) \<and>
      generate B now S req =
        (\<lparr> status = 400,
           body = JObj [(''success'', JBool False),
                        (''errors'', JArr (map error_entry (validationResult req)))] \<rparr>, S, [])"
    if l: "length code = 10001" and c: "body_code req = Some (JStr code)"
  proof -
    have m: "(''code'', ''Code too long (max 10000 chars)'') \<in> set (validationResult req)"
      using l c by (simp add: validationResult_def validate_code_string check_def)
    then have "validationResult req \<noteq> []"
      by auto
    from generate_invalid [OF this] m show ?thesis by simp
  qed
  from a b c show ?thesis by blast
qed

theorem code_length_boundary_witness:
  "length (replicate 10000 CHR ''a'') = 10000 \<and>
   validate_code (Some (JStr (replicate 10000 CHR ''a''))) = [] \<and>
   status (fst (generate example_builtins ''t1'' example_server
      \<lparr> body_code = Some (JStr (replicate 10000 CHR ''a'')), body_options = None \<rparr>)) \<noteq> 400 \<and>
   length (replicate 10001 CHR ''a'') = 10001 \<and>
   status (fst (generate example_builtins ''t1'' example_server
      \<lparr> body_code = Some (JStr (replicate 10001 CHR ''a'')), body_options = None \<rparr>)) = 400 \<and>
   snd (snd (generate example_builtins ''t1'' example_server
      \<lparr> body_code = Some (JStr (replicate 10001 CHR ''a'')), body_options = None \<rparr>)) = []"
proof -
  have l: "length (replicate 10000 CHR ''a'') = 10000" "length (replicate 10001 CHR ''a'') = 10001"
    by simp_all
  note t1 = code_length_boundary [of "replicate 10000 CHR ''a''"
      "\<lparr> body_code = Some (JStr (replicate 10000 CHR ''a'')), body_options = None \<rparr>"
      example_builtins "''t1''" example_server]
  note t2 = code_length_boundary [of "replicate 10001 CHR ''a''"
      "\<lparr> body_code = Some (JStr (replicate 10001 CHR ''a'')), body_options = None \<rparr>"
      example_builtins "''t1''" example_server]
  from t1 l(1) have a: "validate_code (Some (JStr (replicate 10000 CHR ''a''))) = []"
    "status (fst (generate example_builtins ''t1'' example_server
      \<lparr> body_code = Some (JStr (replicate 10000 CHR ''a'')), body_options = None \<rparr>)) \<noteq> 400"
    by simp_all
  from t2 l(2) have "generate example_builtins ''t1'' example_server
      \<lparr> body_code = Some (JStr (replicate 10001 CHR ''a'')), body_options = None \<rparr> =
        (\<lparr> status = 400,
           body = JObj [(''success'', JBool False),
                        (''errors'', JArr (map error_entry (validationResult
                           \<lparr> body_code = Some (JStr (replicate 10001 CHR ''a'')), body_options = None \<rparr>)))] \<rparr>,
         example_server, [])"
    by simp
  then have b: "status (fst (generate example_builtins ''t1'' example_server
      \<lparr> body_code = Some (JStr (replicate 10001 CHR ''a'')), body_options = None \<rparr>)) = 400"
    "snd (snd (generate example_builtins ''t1'' example_server
      \<lparr> body_code = Some (JStr (replicate 10001 CHR ''a'')), body_options = None \<rparr>)) = []"
    by simp_all
  from l a b show ?thesis by (intro conjI)
qed

text \<open>
  C10. A response served from the cache has \<^verbatim>\<open>cached\<close> true and the time of the
  response as \<^verbatim>\<open>timestamp\<close>, whatever the entry holds for the two; the handler only
  reads the cache, and the server with its store is as before.
\<close>

theorem cached_response:
  assumes "validationResult req = []" and "body_code req = Some (JStr code)"
    and "getFromCache B (redisClient S) (cacheKey code (default_options (body_options req))) = Inr cached"
    and "truthy cached"
  shows "status (fst (generate B now S req)) = 200 \<and>
         member (body (fst (generate B now S req))) ''cached'' = Some (JBool True) \<and>
         member (body (fst (generate B now S req))) ''timestamp'' = Some (JStr now) \<and>
         fst (snd (generate B now S req)) = S \<and>
         snd (snd (generate B now S req)) = [CacheGet (cacheKey code (default_options (body_options req)))]"
  using generate_cached [OF assms, of now]
  by (simp add: member_def own_prop_put_same own_prop_put_other)

theorem cached_response_witness:
  "validationResult example_request = [] \<and>
   getFromCache example_builtins (Some example_redis) (cacheKey ''console.log(1)'' (JObj [])) =
     Inr (JObj [(''success'', JBool True), (''cached'', JBool False), (''timestamp'', JStr ''t0'')]) \<and>
   body (fst (generate example_builtins ''t1'' (example_server\<lparr>redisClient := Some example_redis\<rparr>)
      example_request)) =
     JObj [(''success'', JBool True), (''cached'', JBool True), (''timestamp'', JStr ''t1'')] \<and>
   fst (snd (generate example_builtins ''t1'' (example_server\<lparr>redisClient := Some example_redis\<rparr>)
      example_request)) = example_server\<lparr>redisClient := Some example_redis\<rparr>"
proof -
  let ?S = "example_server\<lparr>redisClient := Some example_redis\<rparr>"
  have g: "getFromCache example_builtins (Some example_redis) k =
     Inr (JObj [(''success'', JBool True), (''cached'', JBool False), (''timestamp'', JStr ''t0'')])" for k
    by (simp add: getFromCache_def redis_get_def example_redis_def example_builtins_def)
  have s: "body_code example_request = Some (JStr ''console.log(1)'')"
    "getFromCache example_builtins (redisClient ?S)
       (cacheKey ''console.log(1)'' (default_options (body_options example_request))) =
     Inr (JObj [(''success'', JBool True), (''cached'', JBool False), (''timestamp'', JStr ''t0'')])"
    "truthy (JObj [(''success'', JBool True), (''cached'', JBool False), (''timestamp'', JStr ''t0'')])"
    by (simp_all add: example_request_def g)
  have b: "body (fst (generate example_builtins ''t1'' ?S example_request)) =
     JObj [(''success'', JBool True), (''cached'', JBool True), (''timestamp'', JStr ''t1'')]"
    using generate_cached [OF example_valid s, of "''t1''"] by (simp add: spread_def)
  from cached_response [OF example_valid s, of "''t1''"] example_valid g b show ?thesis
    by simp
qed


end
